theory Spec2Isabelle
  imports Main
begin

section \<open>Cordon and drain of a node: the model\<close>

text \<open>
  The Go being modelled is the file that holds \<^verbatim>\<open>K8sCordon\<close>, \<^verbatim>\<open>K8sDrain\<close>,
  \<^verbatim>\<open>evictWithRetry\<close>, \<^verbatim>\<open>waitPodDeleted\<close> and the pod predicates, together with
  \<^verbatim>\<open>getClient\<close>, \<^verbatim>\<open>textOKResult\<close> and \<^verbatim>\<open>textErrorResult\<close>.

  The cluster is outside the program. It is an oracle here: a record of functions that
  give, for the instant at which a request is sent, the reply and the time the round
  trip takes. The program's own state is the clock and the list of the requests it has
  sent (a ghost trace, so that "no request was sent" can be stated). Every round trip
  takes at least one nanosecond; the clock moves only in requests and waits.
\<close>

subsection \<open>Time and durations\<close>

type_synonym time = int  \<comment> \<open>nanoseconds on the clock\<close>

type_synonym duration = int  \<comment> \<open>\<^verbatim>\<open>time.Duration\<close>: an int64 count of nanoseconds\<close>

definition wrap64 :: "int \<Rightarrow> int" where
  \<comment> \<open>the int64 that Go keeps of an arithmetic result (two's complement wrap-around)\<close>
  "wrap64 x = (x + 2 ^ 63) mod 2 ^ 64 - 2 ^ 63"

definition Millisecond :: duration where
  "Millisecond = 1000000"

definition Second :: duration where
  "Second = 1000000000"

subsection \<open>Errors\<close>

text \<open>
  An error of the client library carries what the five predicates of
  \<^verbatim>\<open>apierrors\<close> answer for it, and its message. The two context errors answer no to
  all five.
\<close>

record reply_error =
  notFound :: bool
  tooManyRequests :: bool
  conflict :: bool
  serverTimeout :: bool
  timeout :: bool
  message :: string

datatype go_error = DeadlineExceeded | Canceled | ClientError reply_error

fun IsNotFound :: "go_error \<Rightarrow> bool" where
  "IsNotFound (ClientError e) = notFound e"
| "IsNotFound _ = False"

fun IsTooManyRequests :: "go_error \<Rightarrow> bool" where
  "IsTooManyRequests (ClientError e) = tooManyRequests e"
| "IsTooManyRequests _ = False"

fun IsConflict :: "go_error \<Rightarrow> bool" where
  "IsConflict (ClientError e) = conflict e"
| "IsConflict _ = False"

fun IsServerTimeout :: "go_error \<Rightarrow> bool" where
  "IsServerTimeout (ClientError e) = serverTimeout e"
| "IsServerTimeout _ = False"

fun IsTimeout :: "go_error \<Rightarrow> bool" where
  "IsTimeout (ClientError e) = timeout e"
| "IsTimeout _ = False"

fun errorText :: "go_error \<Rightarrow> string" where
  \<comment> \<open>the method \<^verbatim>\<open>Error()\<close>, also what \<^verbatim>\<open>%v\<close> prints\<close>
  "errorText DeadlineExceeded = ''context deadline exceeded''"
| "errorText Canceled = ''context canceled''"
| "errorText (ClientError e) = message e"

definition plainError :: "string \<Rightarrow> go_error" where
  \<comment> \<open>\<^verbatim>\<open>fmt.Errorf\<close> of a fixed text\<close>
  "plainError m = ClientError \<lparr>notFound = False, tooManyRequests = False, conflict = False,
     serverTimeout = False, timeout = False, message = m\<rparr>"

subsection \<open>Contexts\<close>

text \<open>
  A context that ends: \<open>doneAt\<close> is the instant its \<^verbatim>\<open>Done\<close> channel closes and
  \<open>doneErr\<close> what \<^verbatim>\<open>Err()\<close> returns from then on. The caller's context may never
  end; it is a \<open>Context option\<close>, \<open>None\<close> for one that never does. The retry engine
  and the poll are only ever called with the context \<^verbatim>\<open>WithTimeout\<close> made, which ends.
\<close>

record Context =
  doneAt :: time
  doneErr :: go_error

definition ctx_Err :: "Context \<Rightarrow> time \<Rightarrow> go_error option" where
  "ctx_Err ctx t = (if doneAt ctx \<le> t then Some (doneErr ctx) else None)"

definition WithTimeout :: "Context option \<Rightarrow> time \<Rightarrow> duration \<Rightarrow> Context" where
  "WithTimeout parent t d =
     (let deadline = t + d in
      case parent of
        None \<Rightarrow> \<lparr>doneAt = deadline, doneErr = DeadlineExceeded\<rparr>
      | Some p \<Rightarrow> if doneAt p < deadline then p
                  else \<lparr>doneAt = deadline, doneErr = DeadlineExceeded\<rparr>)"

subsection \<open>JSON values\<close>

datatype json =
    JNull
  | JBool bool
  | JNumber int
  | JString string
  | JArray "json list"
  | JObject "(string \<times> json) list"

subsection \<open>Pods\<close>

record owner_reference =
  Kind :: string
  OwnerName :: string

record volume =
  VolumeName :: string
  EmptyDir :: "string option"  \<comment> \<open>the pointer is nil or not; the medium when it is not\<close>
  HostPath :: "string option"  \<comment> \<open>the pointer is nil or not; the path when it is not\<close>

record pod =
  Namespace :: string
  Name :: string
  Phase :: string
  Annotations :: "string \<rightharpoonup> string"
  OwnerReferences :: "owner_reference list"
  Volumes :: "volume list"

definition isCompletedPod :: "pod \<Rightarrow> bool" where
  "isCompletedPod p = (Phase p = ''Succeeded'' \<or> Phase p = ''Failed'')"

fun ownerLoop :: "owner_reference list \<Rightarrow> string \<Rightarrow> bool" where
  "ownerLoop [] kind = False"
| "ownerLoop (r # rs) kind = (if Kind r = kind then True else ownerLoop rs kind)"

definition isOwnedBy :: "pod \<Rightarrow> string \<Rightarrow> bool" where
  "isOwnedBy p kind = ownerLoop (OwnerReferences p) kind"

fun volumeLoop :: "volume list \<Rightarrow> bool" where
  "volumeLoop [] = False"
| "volumeLoop (v # vs) = (if EmptyDir v \<noteq> None \<or> HostPath v \<noteq> None then True else volumeLoop vs)"

definition hasLocalData :: "pod \<Rightarrow> bool" where
  "hasLocalData p = volumeLoop (Volumes p)"

definition isMirrorPod :: "pod \<Rightarrow> bool" where
  "isMirrorPod p = (Annotations p ''kubernetes.io/config.mirror'' \<noteq> None)"

subsection \<open>The cluster, the clock and the trace\<close>

datatype request =
    PatchNode string json
  | ListPods string
  | EvictPod string string "int option"
  | GetPod string string
  | DeletePod string string "int option"

datatype event =
    Request time request  \<comment> \<open>a request, with the instant it was sent\<close>
  | Sleep time duration   \<comment> \<open>a wait on \<^verbatim>\<open>time.After\<close>, with its duration\<close>
  | Tick time             \<comment> \<open>a wait on the ticker of the poll\<close>

record state =
  now :: time
  trace :: "event list"

record cluster =
  kubeClient :: bool  \<comment> \<open>the global client is set\<close>
  patchNode :: "time \<Rightarrow> string \<Rightarrow> json \<Rightarrow> go_error option \<times> nat"
  listPods :: "time \<Rightarrow> string \<Rightarrow> (go_error + pod list) \<times> nat"
  evictPod :: "time \<Rightarrow> string \<Rightarrow> string \<Rightarrow> int option \<Rightarrow> go_error option \<times> nat"
  getPod :: "time \<Rightarrow> string \<Rightarrow> string \<Rightarrow> go_error option \<times> nat"
  deletePod :: "time \<Rightarrow> string \<Rightarrow> string \<Rightarrow> int option \<Rightarrow> go_error option \<times> nat"
  tickWait :: "time \<Rightarrow> nat"
  timerFirst :: "time \<Rightarrow> bool"

definition getClient :: "cluster \<Rightarrow> go_error + unit" where
  "getClient env =
     (if \<not> kubeClient env then Inl (plainError ''Kubernetes client is not initialized'')
      else Inr ())"

text \<open>
  One round trip under a context. The reply is the oracle's; the clock moves by the
  latency plus one; the request is appended to the trace. A request whose context is
  done by the time it returns does not report success: the client library runs
  every request under its context, so such a request ends with the context's error.
\<close>

definition call :: "Context option \<Rightarrow> request \<Rightarrow> go_error option \<times> nat \<Rightarrow> state
    \<Rightarrow> go_error option \<times> state" where
  "call ctx rq ans s =
     (let t = now s + 1 + int (snd ans);
          s' = s\<lparr>now := t, trace := trace s @ [Request (now s) rq]\<rparr>
      in case fst ans of
           Some err \<Rightarrow> (Some err, s')
         | None \<Rightarrow> (case ctx of None \<Rightarrow> (None, s') | Some c \<Rightarrow> (ctx_Err c t, s')))"

definition callList :: "Context option \<Rightarrow> request \<Rightarrow> (go_error + pod list) \<times> nat \<Rightarrow> state
    \<Rightarrow> (go_error + pod list) \<times> state" where
  "callList ctx rq ans s =
     (let t = now s + 1 + int (snd ans);
          s' = s\<lparr>now := t, trace := trace s @ [Request (now s) rq]\<rparr>
      in case fst ans of
           Inl err \<Rightarrow> (Inl err, s')
         | Inr pods \<Rightarrow>
             (case ctx of
                None \<Rightarrow> (Inr pods, s')
              | Some c \<Rightarrow> (case ctx_Err c t of None \<Rightarrow> (Inr pods, s') | Some err \<Rightarrow> (Inl err, s'))))"

text \<open>
  \<^verbatim>\<open>select { case <-time.After(backoff): case <-ctx.Done(): return ctx.Err() }\<close>.
  The timer fires at once when the duration is not positive. When both channels are
  ready at the same instant Go picks either; the oracle says which.
\<close>

definition sleepOrDone :: "cluster \<Rightarrow> Context \<Rightarrow> duration \<Rightarrow> state \<Rightarrow> go_error option \<times> state" where
  "sleepOrDone env ctx backoff s =
     (let fire = now s + max 0 backoff;
          closed = max (now s) (doneAt ctx);
          tr = trace s @ [Sleep (now s) backoff]
      in if fire < closed \<or> (fire = closed \<and> timerFirst env (now s))
         then (None, s\<lparr>now := fire, trace := tr\<rparr>)
         else (Some (doneErr ctx), s\<lparr>now := closed, trace := tr\<rparr>))"

text \<open>
  \<^verbatim>\<open>select { case <-t.C: case <-ctx.Done(): return ctx.Err() }\<close> on the ticker of
  500 ms. The next tick comes after at most one period, at once when one is already
  buffered; how long is the oracle's.
\<close>

definition tickOrDone :: "cluster \<Rightarrow> Context \<Rightarrow> state \<Rightarrow> go_error option \<times> state" where
  "tickOrDone env ctx s =
     (let fire = now s + min (500 * Millisecond) (int (tickWait env (now s)));
          closed = max (now s) (doneAt ctx);
          tr = trace s @ [Tick (now s)]
      in if fire < closed \<or> (fire = closed \<and> timerFirst env (now s))
         then (None, s\<lparr>now := fire, trace := tr\<rparr>)
         else (Some (doneErr ctx), s\<lparr>now := closed, trace := tr\<rparr>))"

subsection \<open>The poll for the pod's disappearance\<close>

lemma call_now: "call ctx rq ans s = (r, s') \<Longrightarrow> now s' = now s + 1 + int (snd ans)"
  by (auto simp: call_def Let_def split: option.splits)

lemma call_ok_alive:
  "call (Some ctx) rq ans s = (None, s') \<Longrightarrow> now s' < doneAt ctx"
  by (auto simp: call_def Let_def ctx_Err_def split: option.splits if_splits)

lemma sleepOrDone_now: "sleepOrDone env ctx b s = (r, s') \<Longrightarrow> now s \<le> now s'"
  by (auto simp: sleepOrDone_def Let_def split: if_splits)

lemma tickOrDone_now: "tickOrDone env ctx s = (r, s') \<Longrightarrow> now s \<le> now s'"
  by (auto simp: tickOrDone_def Let_def Millisecond_def split: if_splits)

lemma ctx_Err_None: "ctx_Err ctx t = None \<longleftrightarrow> t < doneAt ctx"
  by (auto simp: ctx_Err_def)

lemma wait_step:
  assumes c: "(x, y) = call (Some ctx) rq ans s"
    and e: "\<not> (x \<noteq> None \<and> ctx_Err ctx (now y) \<noteq> None)"
    and t: "(r, ya) = tickOrDone env ctx y"
  shows "nat (doneAt ctx - now ya) < nat (doneAt ctx - now s)"
proof -
  from c have c': "call (Some ctx) rq ans s = (x, y)" by simp
  have alive: "now y < doneAt ctx"
  proof (cases x)
    case None
    with c' show ?thesis by (auto dest: call_ok_alive)
  next
    case (Some e')
    with e show ?thesis by (simp add: ctx_Err_None)
  qed
  from c' have "now s < now y" by (auto dest: call_now)
  moreover from t have "now y \<le> now ya" by (auto dest: tickOrDone_now [OF sym])
  ultimately show ?thesis using alive by simp
qed

function waitPodDeleted :: "cluster \<Rightarrow> Context \<Rightarrow> string \<Rightarrow> string \<Rightarrow> state
    \<Rightarrow> go_error option \<times> state" where
  "waitPodDeleted env ctx namespace name s =
     (case call (Some ctx) (GetPod namespace name) (getPod env (now s) namespace name) s of
        (err, s1) \<Rightarrow>
          if (case err of None \<Rightarrow> False | Some e \<Rightarrow> IsNotFound e) then (None, s1)
          else if err \<noteq> None \<and> ctx_Err ctx (now s1) \<noteq> None then (ctx_Err ctx (now s1), s1)
          else (case tickOrDone env ctx s1 of
                  (Some cerr, s2) \<Rightarrow> (Some cerr, s2)
                | (None, s2) \<Rightarrow> waitPodDeleted env ctx namespace name s2))"
  by pat_completeness auto

termination
  apply (relation "measure (\<lambda>(env, ctx, namespace, name, s). nat (doneAt ctx - now s))")
   apply simp
  apply (simp only: in_measure prod.case)
  apply (erule wait_step, assumption, assumption)
  done

declare waitPodDeleted.simps [simp del]

subsection \<open>The eviction retry engine\<close>

definition nextBackoff :: "duration \<Rightarrow> duration \<Rightarrow> duration" where
  \<comment> \<open>\<^verbatim>\<open>backoff *= 2; if backoff > maxBackoff { backoff = maxBackoff }\<close> on int64\<close>
  "nextBackoff backoff maxBackoff =
     (let b = wrap64 (backoff * 2) in if b > maxBackoff then maxBackoff else b)"

lemma evict_step:
  assumes c: "(x, y) = call (Some ctx) rq ans s"
    and e: "ctx_Err ctx (now s) = None"
    and t: "(r, ya) = sleepOrDone env ctx b y"
  shows "nat (doneAt ctx - now ya) < nat (doneAt ctx - now s)"
proof -
  from c have "now s < now y" by (auto dest: call_now [OF sym])
  moreover from t have "now y \<le> now ya" by (auto dest: sleepOrDone_now [OF sym])
  moreover from e have "now s < doneAt ctx" by (simp add: ctx_Err_None)
  ultimately show ?thesis by simp
qed

function evictLoop :: "cluster \<Rightarrow> Context \<Rightarrow> pod \<Rightarrow> int option \<Rightarrow> duration \<Rightarrow> duration
    \<Rightarrow> state \<Rightarrow> go_error option \<times> state" where
  "evictLoop env ctx pod gracePtr backoff maxBackoff s =
     (case ctx_Err ctx (now s) of
        Some cerr \<Rightarrow> (Some cerr, s)
      | None \<Rightarrow>
          (case call (Some ctx) (EvictPod (Namespace pod) (Name pod) gracePtr)
                  (evictPod env (now s) (Namespace pod) (Name pod) gracePtr) s of
             (None, s1) \<Rightarrow> waitPodDeleted env ctx (Namespace pod) (Name pod) s1
           | (Some err, s1) \<Rightarrow>
               if IsNotFound err then (None, s1)
               else if IsTooManyRequests err then
                 (case sleepOrDone env ctx backoff s1 of
                    (Some cerr, s2) \<Rightarrow> (Some cerr, s2)
                  | (None, s2) \<Rightarrow>
                      evictLoop env ctx pod gracePtr (nextBackoff backoff maxBackoff) maxBackoff s2)
               else if IsConflict err \<or> IsServerTimeout err \<or> IsTimeout err then
                 (case sleepOrDone env ctx backoff s1 of
                    (Some cerr, s2) \<Rightarrow> (Some cerr, s2)
                  | (None, s2) \<Rightarrow>
                      evictLoop env ctx pod gracePtr (nextBackoff backoff maxBackoff) maxBackoff s2)
               else (Some err, s1)))"
  by pat_completeness auto

termination
  apply (relation "measure (\<lambda>(env, ctx, pod, gracePtr, backoff, maxBackoff, s). nat (doneAt ctx - now s))")
    apply simp
   apply (simp only: in_measure prod.case)
   apply (erule evict_step, assumption, assumption)
  apply (simp only: in_measure prod.case)
  apply (erule evict_step, assumption, assumption)
  done

declare evictLoop.simps [simp del]

definition evictWithRetry :: "cluster \<Rightarrow> Context \<Rightarrow> pod \<Rightarrow> int option \<Rightarrow> duration \<Rightarrow> duration
    \<Rightarrow> state \<Rightarrow> go_error option \<times> state" where
  "evictWithRetry env ctx pod gracePtr initialBackoff maxBackoff s =
     (let backoff = (if initialBackoff \<le> 0 then Second else initialBackoff);
          maxBackoff' = (if maxBackoff \<le> 0 then 10 * Second else maxBackoff)
      in evictLoop env ctx pod gracePtr backoff maxBackoff' s)"

subsection \<open>Tool results and the report\<close>

datatype content =
    Plain string     \<comment> \<open>a text given as it is\<close>
  | Marshalled json  \<comment> \<open>the text \<^verbatim>\<open>json.MarshalIndent\<close> prints for the value\<close>

record call_tool_result =
  IsError :: bool
  Content :: "content list"

definition textOKResult :: "content \<Rightarrow> call_tool_result" where
  "textOKResult c = \<lparr>IsError = False, Content = [c]\<rparr>"

definition textErrorResult :: "content \<Rightarrow> call_tool_result" where
  "textErrorResult c = \<lparr>IsError = True, Content = [c]\<rparr>"

record podResult =
  r_Namespace :: string
  r_Name :: string
  Action :: string
  Error :: string

definition marshalPodResult :: "podResult \<Rightarrow> json" where
  \<comment> \<open>the struct tags: \<^verbatim>\<open>namespace\<close>, \<^verbatim>\<open>name\<close>, \<^verbatim>\<open>action\<close>, \<^verbatim>\<open>error,omitempty\<close>\<close>
  "marshalPodResult r =
     JObject ([(''namespace'', JString (r_Namespace r)),
               (''name'', JString (r_Name r)),
               (''action'', JString (Action r))]
              @ (if Error r = [] then [] else [(''error'', JString (Error r))]))"

text \<open>
  The arguments of a drain, as \<^verbatim>\<open>boolFromArgs\<close>, \<^verbatim>\<open>intFromArgsDefault\<close> and
  \<^verbatim>\<open>intFromArgs\<close> read them from the argument map: \<open>grace_period\<close> is \<open>None\<close>
  when \<^verbatim>\<open>intFromArgs\<close> answers not ok. The integers are Go's \<^verbatim>\<open>int\<close>.
\<close>

record drain_args =
  node_name :: string
  ignore_daemonsets :: bool
  delete_local_data :: bool
  force :: bool
  grace_period :: "int option"
  timeout_seconds :: int
  retry_backoff_ms :: int
  max_backoff_ms :: int

definition summary :: "drain_args \<Rightarrow> int option \<Rightarrow> podResult list \<Rightarrow> json" where
  \<comment> \<open>a nil slice is printed as \<^verbatim>\<open>null\<close>, and \<^verbatim>\<open>results\<close> is nil until the first append\<close>
  "summary args gracePtr results =
     JObject [(''node'', JString (node_name args)),
              (''status'', JString ''drain_attempted''),
              (''ignore_daemonsets'', JBool (ignore_daemonsets args)),
              (''delete_local_data'', JBool (delete_local_data args)),
              (''force'', JBool (force args)),
              (''grace_period'', (case gracePtr of None \<Rightarrow> JNull | Some g \<Rightarrow> JNumber g)),
              (''timeout_seconds'', JNumber (timeout_seconds args)),
              (''retry_backoff_ms'', JNumber (retry_backoff_ms args)),
              (''max_backoff_ms'', JNumber (max_backoff_ms args)),
              (''results'', (if results = [] then JNull else JArray (map marshalPodResult results)))]"

subsection \<open>Cordon\<close>

definition cordonPatch :: json where
  "cordonPatch = JObject [(''spec'', JObject [(''unschedulable'', JBool True)])]"

definition K8sCordon :: "cluster \<Rightarrow> Context option \<Rightarrow> string \<Rightarrow> state \<Rightarrow> call_tool_result \<times> state" where
  "K8sCordon env ctx nodeName s =
     (if nodeName = [] then (textErrorResult (Plain ''node_name is required''), s)
      else case getClient env of
        Inl err \<Rightarrow> (textErrorResult (Plain (errorText err)), s)
      | Inr cs \<Rightarrow>
          (case call ctx (PatchNode nodeName cordonPatch) (patchNode env (now s) nodeName cordonPatch) s of
             (Some err, s1) \<Rightarrow>
               (textErrorResult (Plain (''Error cordoning node '' @ nodeName @ '': '' @ errorText err)), s1)
           | (None, s1) \<Rightarrow>
               (textOKResult (Plain (''Node '' @ nodeName @ '' cordoned successfully'')), s1)))"

subsection \<open>Drain\<close>

text \<open>
  The body of the loop over the listed pods, in two parts: the guards that skip a pod,
  and from the call of \<^verbatim>\<open>evictWithRetry\<close> on. The body gives the entry it
  appends to \<^verbatim>\<open>results\<close>, if any.
\<close>

definition evictOrForce :: "cluster \<Rightarrow> Context \<Rightarrow> drain_args \<Rightarrow> int option \<Rightarrow> pod \<Rightarrow> state
    \<Rightarrow> podResult option \<times> state" where
  "evictOrForce env drainCtx args gracePtr pod s =
     (case evictWithRetry env drainCtx pod gracePtr
             (wrap64 (retry_backoff_ms args * Millisecond))
             (wrap64 (max_backoff_ms args * Millisecond)) s of
        (Some err, s1) \<Rightarrow>
          if force args then
            (case call (Some drainCtx) (DeletePod (Namespace pod) (Name pod) gracePtr)
                    (deletePod env (now s1) (Namespace pod) (Name pod) gracePtr) s1 of
               (Some derr, s2) \<Rightarrow>
                 (Some \<lparr>r_Namespace = Namespace pod, r_Name = Name pod,
                        Action = ''evict_failed_delete_failed'',
                        Error = ''evict: '' @ errorText err @ ''; delete: '' @ errorText derr\<rparr>, s2)
             | (None, s2) \<Rightarrow>
                 (Some \<lparr>r_Namespace = Namespace pod, r_Name = Name pod,
                        Action = ''force_deleted'', Error = []\<rparr>, s2))
          else
            (Some \<lparr>r_Namespace = Namespace pod, r_Name = Name pod,
                   Action = ''evict_failed'', Error = errorText err\<rparr>, s1)
      | (None, s1) \<Rightarrow>
          (Some \<lparr>r_Namespace = Namespace pod, r_Name = Name pod,
                 Action = ''evicted'', Error = []\<rparr>, s1))"

definition drainPod :: "cluster \<Rightarrow> Context \<Rightarrow> drain_args \<Rightarrow> int option \<Rightarrow> pod \<Rightarrow> state
    \<Rightarrow> podResult option \<times> state" where
  "drainPod env drainCtx args gracePtr pod s =
     (if isCompletedPod pod then (None, s)
      else if isMirrorPod pod then
        (Some \<lparr>r_Namespace = Namespace pod, r_Name = Name pod,
               Action = ''skipped (mirror/static pod)'', Error = []\<rparr>, s)
      else if ignore_daemonsets args \<and> isOwnedBy pod ''DaemonSet'' then
        (Some \<lparr>r_Namespace = Namespace pod, r_Name = Name pod,
               Action = ''skipped (daemonset)'', Error = []\<rparr>, s)
      else if \<not> delete_local_data args \<and> hasLocalData pod \<and> \<not> force args then
        (Some \<lparr>r_Namespace = Namespace pod, r_Name = Name pod,
               Action = ''skipped (local data; set delete_local_data=true or force=true)'',
               Error = []\<rparr>, s)
      else evictOrForce env drainCtx args gracePtr pod s)"

fun drainLoop :: "cluster \<Rightarrow> Context \<Rightarrow> drain_args \<Rightarrow> int option \<Rightarrow> pod list \<Rightarrow> podResult list
    \<Rightarrow> state \<Rightarrow> podResult list \<times> state" where
  "drainLoop env drainCtx args gracePtr [] results s = (results, s)"
| "drainLoop env drainCtx args gracePtr (pod # pods) results s =
     (case drainPod env drainCtx args gracePtr pod s of
        (None, s') \<Rightarrow> drainLoop env drainCtx args gracePtr pods results s'
      | (Some r, s') \<Rightarrow> drainLoop env drainCtx args gracePtr pods (results @ [r]) s')"

definition K8sDrain :: "cluster \<Rightarrow> Context option \<Rightarrow> drain_args \<Rightarrow> state \<Rightarrow> call_tool_result \<times> state" where
  "K8sDrain env ctx args s =
     (let nodeName = node_name args in
      if nodeName = [] then (textErrorResult (Plain ''node_name is required''), s)
      else
        let gracePtr = (case grace_period args of
                          None \<Rightarrow> None
                        | Some gp \<Rightarrow> if gp \<ge> 0 then Some gp else None)
        in case getClient env of
             Inl err \<Rightarrow> (textErrorResult (Plain (errorText err)), s)
           | Inr cs \<Rightarrow>
               (case K8sCordon env ctx nodeName s of
                  (res, s1) \<Rightarrow>
                    if IsError res then (res, s1)
                    else
                      (case callList ctx (ListPods (''spec.nodeName='' @ nodeName))
                              (listPods env (now s1) (''spec.nodeName='' @ nodeName)) s1 of
                         (Inl err, s2) \<Rightarrow>
                           (textErrorResult
                              (Plain (''Error listing pods on node '' @ nodeName @ '': '' @ errorText err)), s2)
                       | (Inr pods, s2) \<Rightarrow>
                           (let drainCtx = WithTimeout ctx (now s2) (wrap64 (timeout_seconds args * Second))
                            in case drainLoop env drainCtx args gracePtr pods [] s2 of
                                 (results, s3) \<Rightarrow>
                                   (textOKResult (Marshalled (summary args gracePtr results)), s3)))))"

section \<open>Reading a run\<close>

text \<open>
  What a trace holds: the durations of the waits on \<^verbatim>\<open>time.After\<close>, in order, and
  the instants at which evictions were requested. \<open>backoffs n b m\<close> is the list of the
  first \<open>n\<close> values of the variable \<^verbatim>\<open>backoff\<close> from \<open>b\<close> on.
\<close>

fun sleeps :: "event list \<Rightarrow> duration list" where
  "sleeps [] = []"
| "sleeps (Sleep t d # es) = d # sleeps es"
| "sleeps (e # es) = sleeps es"

fun evictTimes :: "event list \<Rightarrow> time list" where
  "evictTimes [] = []"
| "evictTimes (Request t (EvictPod ns n g) # es) = t # evictTimes es"
| "evictTimes (e # es) = evictTimes es"

fun backoffs :: "nat \<Rightarrow> duration \<Rightarrow> duration \<Rightarrow> duration list" where
  "backoffs 0 b m = []"
| "backoffs (Suc n) b m = b # backoffs n (nextBackoff b m) m"

definition retryable :: "go_error \<Rightarrow> bool" where
  "retryable err = (IsTooManyRequests err \<or> IsConflict err \<or> IsServerTimeout err \<or> IsTimeout err)"

subsection \<open>Reading a report\<close>

text \<open>
  What the caller reads in the result of a drain: the members of the report, the
  entries under \<^verbatim>\<open>results\<close> (none when the member is \<^verbatim>\<open>null\<close> or the result is not a
  report), and in an entry the pod and the action.
\<close>

definition reportOf :: "call_tool_result \<Rightarrow> (string \<times> json) list" where
  "reportOf res = (case Content res of [Marshalled (JObject fs)] \<Rightarrow> fs | _ \<Rightarrow> [])"

definition reportEntries :: "call_tool_result \<Rightarrow> json list" where
  "reportEntries res = (case map_of (reportOf res) ''results'' of Some (JArray es) \<Rightarrow> es | _ \<Rightarrow> [])"

fun memberNames :: "json \<Rightarrow> string list" where
  "memberNames (JObject fs) = map fst fs"
| "memberNames _ = []"

fun memberText :: "string \<Rightarrow> json \<Rightarrow> string" where
  "memberText k (JObject fs) = (case map_of fs k of Some (JString v) \<Rightarrow> v | _ \<Rightarrow> [])"
| "memberText k _ = []"

definition entryPod :: "json \<Rightarrow> string \<times> string" where
  "entryPod e = (memberText ''namespace'' e, memberText ''name'' e)"

definition entryAction :: "json \<Rightarrow> string" where
  "entryAction e = memberText ''action'' e"

definition podKey :: "pod \<Rightarrow> string \<times> string" where
  "podKey p = (Namespace p, Name p)"

definition resultKey :: "podResult \<Rightarrow> string \<times> string" where
  "resultKey r = (r_Namespace r, r_Name r)"

definition actions :: "string list" where
  \<comment> \<open>the seven texts the loop writes into \<^verbatim>\<open>Action\<close>\<close>
  "actions = [''skipped (mirror/static pod)'', ''skipped (daemonset)'',
     ''skipped (local data; set delete_local_data=true or force=true)'',
     ''evicted'', ''force_deleted'', ''evict_failed'', ''evict_failed_delete_failed'']"

definition gracePtrOf :: "drain_args \<Rightarrow> int option" where
  \<comment> \<open>the pointer \<^verbatim>\<open>gracePtr\<close>: set when the grace period is given and not negative\<close>
  "gracePtrOf args =
     (case grace_period args of None \<Rightarrow> None | Some gp \<Rightarrow> if gp \<ge> 0 then Some gp else None)"

definition selector :: "drain_args \<Rightarrow> string" where
  "selector args = ''spec.nodeName='' @ node_name args"

subsection \<open>The rule table of the specification\<close>

text \<open>
  The classifier as section 4.1 of the specification words it, to compare the loop
  with: a terminal phase, then the mirror annotation, then a DaemonSet owner when
  DaemonSet pods are ignored, then a node-local volume when neither local data loss is
  allowed nor force is set; otherwise the pod goes to eviction.
\<close>

datatype decision = NotProcessed | SkipMirror | SkipDaemonSet | SkipLocalData | ProceedToEvict

definition spec_classify :: "pod \<Rightarrow> drain_args \<Rightarrow> decision" where
  "spec_classify p rq =
     (if Phase p \<in> {''Succeeded'', ''Failed''} then NotProcessed
      else if ''kubernetes.io/config.mirror'' \<in> dom (Annotations p) then SkipMirror
      else if ignore_daemonsets rq \<and> (\<exists>r \<in> set (OwnerReferences p). Kind r = ''DaemonSet'')
        then SkipDaemonSet
      else if (\<exists>v \<in> set (Volumes p). EmptyDir v \<noteq> None \<or> HostPath v \<noteq> None)
            \<and> \<not> delete_local_data rq \<and> \<not> force rq
        then SkipLocalData
      else ProceedToEvict)"

definition skipped :: "pod \<Rightarrow> string \<Rightarrow> podResult" where
  "skipped p a = \<lparr>r_Namespace = Namespace p, r_Name = Name p, Action = a, Error = []\<rparr>"

section \<open>Concrete clusters\<close>

definition goneError :: go_error where
  "goneError = ClientError \<lparr>notFound = True, tooManyRequests = False, conflict = False,
     serverTimeout = False, timeout = False, message = ''pod not found''\<rparr>"

definition busyError :: go_error where
  "busyError = ClientError \<lparr>notFound = False, tooManyRequests = True, conflict = False,
     serverTimeout = False, timeout = False, message = ''disruption budget''\<rparr>"

definition forbiddenError :: go_error where
  "forbiddenError = plainError ''forbidden''"

definition calmCluster :: "pod list \<Rightarrow> cluster" where
  \<comment> \<open>every request succeeds at once; an evicted pod is gone at the first poll\<close>
  "calmCluster pods =
     \<lparr>kubeClient = True,
      patchNode = (\<lambda>t n p. (None, 0)),
      listPods = (\<lambda>t sel. (Inr pods, 0)),
      evictPod = (\<lambda>t ns n g. (None, 0)),
      getPod = (\<lambda>t ns n. (Some goneError, 0)),
      deletePod = (\<lambda>t ns n g. (None, 0)),
      tickWait = (\<lambda>t. 0),
      timerFirst = (\<lambda>t. True)\<rparr>"

definition start :: state where
  "start = \<lparr>now = 0, trace = []\<rparr>"

definition congestedCluster :: "pod list \<Rightarrow> cluster" where
  "congestedCluster pods =
     \<lparr>kubeClient = True,
      patchNode = (\<lambda>t n p. (None, 0)),
      listPods = (\<lambda>t sel. (Inr pods, 0)),
      evictPod = (\<lambda>t ns n g. (Some busyError, 0)),
      getPod = (\<lambda>t ns n. (None, 0)),
      deletePod = (\<lambda>t ns n g. (None, 0)),
      tickWait = (\<lambda>t. 0),
      timerFirst = (\<lambda>t. True)\<rparr>"

definition goneCluster :: "pod list \<Rightarrow> cluster" where
  \<comment> \<open>every eviction is answered "not found"\<close>
  "goneCluster pods =
     \<lparr>kubeClient = True,
      patchNode = (\<lambda>t n p. (None, 0)),
      listPods = (\<lambda>t sel. (Inr pods, 0)),
      evictPod = (\<lambda>t ns n g. (Some goneError, 0)),
      getPod = (\<lambda>t ns n. (None, 0)),
      deletePod = (\<lambda>t ns n g. (None, 0)),
      tickWait = (\<lambda>t. 0),
      timerFirst = (\<lambda>t. True)\<rparr>"

definition mirrorPod :: pod where
  "mirrorPod = \<lparr>Namespace = ''kube-system'', Name = ''etcd-n1'', Phase = ''Running'',
     Annotations = [''kubernetes.io/config.mirror'' \<mapsto> ''abc''], OwnerReferences = [],
     Volumes = []\<rparr>"

definition daemonPod :: pod where
  "daemonPod = \<lparr>Namespace = ''kube-system'', Name = ''proxy'', Phase = ''Running'',
     Annotations = Map.empty, OwnerReferences = [\<lparr>Kind = ''DaemonSet'', OwnerName = ''proxy''\<rparr>],
     Volumes = []\<rparr>"

definition cachePod :: pod where
  "cachePod = \<lparr>Namespace = ''default'', Name = ''cache'', Phase = ''Running'',
     Annotations = Map.empty, OwnerReferences = [],
     Volumes = [\<lparr>VolumeName = ''scratch'', EmptyDir = Some [], HostPath = None\<rparr>]\<rparr>"

definition donePod :: pod where
  "donePod = \<lparr>Namespace = ''default'', Name = ''job'', Phase = ''Succeeded'',
     Annotations = Map.empty, OwnerReferences = [], Volumes = []\<rparr>"

definition plainArgs :: drain_args where
  \<comment> \<open>a drain of node n1 with every option at its default\<close>
  "plainArgs = \<lparr>node_name = ''n1'', ignore_daemonsets = False, delete_local_data = False,
     force = False, grace_period = None, timeout_seconds = 600, retry_backoff_ms = 1000,
     max_backoff_ms = 10000\<rparr>"

definition webPod :: pod where
  "webPod = \<lparr>Namespace = ''default'', Name = ''web'', Phase = ''Running'',
     Annotations = Map.empty, OwnerReferences = [], Volumes = []\<rparr>"

definition until :: "time \<Rightarrow> Context" where
  "until t = \<lparr>doneAt = t, doneErr = DeadlineExceeded\<rparr>"




definition refusingCluster :: "pod list \<Rightarrow> cluster" where
  "refusingCluster pods = (calmCluster pods)\<lparr>evictPod := (\<lambda>t ns n g. (Some forbiddenError, 0))\<rparr>"



text \<open>The definitions a concrete run is evaluated with.\<close>

lemmas run_defs = K8sDrain_def K8sCordon_def getClient_def drainPod_def evictOrForce_def
  evictWithRetry_def evictLoop.simps waitPodDeleted.simps call_def callList_def sleepOrDone_def
  tickOrDone_def ctx_Err_def WithTimeout_def nextBackoff_def wrap64_def Let_def
  Second_def Millisecond_def cordonPatch_def textOKResult_def textErrorResult_def
  isCompletedPod_def isMirrorPod_def isOwnedBy_def hasLocalData_def
  calmCluster_def plainArgs_def start_def goneError_def busyError_def forbiddenError_def plainError_def
  webPod_def mirrorPod_def daemonPod_def cachePod_def donePod_def
  reportEntries_def reportOf_def summary_def marshalPodResult_def entryAction_def entryPod_def

section \<open>Runs of the engine\<close>

lemma sleeps_append: "sleeps (xs @ ys) = sleeps xs @ sleeps ys"
  by (induction xs rule: sleeps.induct) auto

lemma evictTimes_append: "evictTimes (xs @ ys) = evictTimes xs @ evictTimes ys"
  by (induction xs rule: evictTimes.induct) auto

lemma call_trace: "call ctx rq ans s = (r, s') \<Longrightarrow> trace s' = trace s @ [Request (now s) rq]"
  by (auto simp: call_def Let_def split: option.splits)

lemma sleepOrDone_trace: "sleepOrDone env ctx b s = (r, s') \<Longrightarrow> trace s' = trace s @ [Sleep (now s) b]"
  by (auto simp: sleepOrDone_def Let_def split: if_splits)

lemma tickOrDone_trace: "tickOrDone env ctx s = (r, s') \<Longrightarrow> trace s' = trace s @ [Tick (now s)]"
  by (auto simp: tickOrDone_def Let_def split: if_splits)

lemma waitPodDeleted_sleeps:
  "waitPodDeleted env ctx ns n s = (r, s') \<Longrightarrow> sleeps (trace s') = sleeps (trace s)"
proof (induction env ctx ns n s arbitrary: r s' rule: waitPodDeleted.induct)
  case (1 env ctx namespace name s)
  show ?case using "1.prems" "1.IH"
    apply (subst (asm) waitPodDeleted.simps)
    apply (auto split: prod.splits option.splits if_splits dest!: call_trace tickOrDone_trace simp: sleeps_append)
    done
qed

lemma waitPodDeleted_evictTimes:
  "waitPodDeleted env ctx ns n s = (r, s') \<Longrightarrow> evictTimes (trace s') = evictTimes (trace s)"
proof (induction env ctx ns n s arbitrary: r s' rule: waitPodDeleted.induct)
  case (1 env ctx namespace name s)
  show ?case using "1.prems" "1.IH"
    apply (subst (asm) waitPodDeleted.simps)
    apply (auto split: prod.splits option.splits if_splits dest!: call_trace tickOrDone_trace simp: evictTimes_append)
    done
qed


lemma evictLoop_cases [consumes 1, case_names Done Accepted Gone Cut Retry Fatal]:
  assumes run: "evictLoop env ctx pod g b m s = (r, s')"
  obtains
    (Done) e where "ctx_Err ctx (now s) = Some e" "r = Some e" "s' = s"
  | (Accepted) s1 where "ctx_Err ctx (now s) = None"
      "call (Some ctx) (EvictPod (Namespace pod) (Name pod) g)
         (evictPod env (now s) (Namespace pod) (Name pod) g) s = (None, s1)"
      "waitPodDeleted env ctx (Namespace pod) (Name pod) s1 = (r, s')"
  | (Gone) err where "ctx_Err ctx (now s) = None"
      "call (Some ctx) (EvictPod (Namespace pod) (Name pod) g)
         (evictPod env (now s) (Namespace pod) (Name pod) g) s = (Some err, s')"
      "IsNotFound err" "r = None"
  | (Cut) err s1 cerr where "ctx_Err ctx (now s) = None"
      "call (Some ctx) (EvictPod (Namespace pod) (Name pod) g)
         (evictPod env (now s) (Namespace pod) (Name pod) g) s = (Some err, s1)"
      "\<not> IsNotFound err" "retryable err"
      "sleepOrDone env ctx b s1 = (Some cerr, s')" "r = Some cerr"
  | (Retry) err s1 s2 where "ctx_Err ctx (now s) = None"
      "call (Some ctx) (EvictPod (Namespace pod) (Name pod) g)
         (evictPod env (now s) (Namespace pod) (Name pod) g) s = (Some err, s1)"
      "\<not> IsNotFound err" "retryable err"
      "sleepOrDone env ctx b s1 = (None, s2)"
      "evictLoop env ctx pod g (nextBackoff b m) m s2 = (r, s')"
  | (Fatal) err where "ctx_Err ctx (now s) = None"
      "call (Some ctx) (EvictPod (Namespace pod) (Name pod) g)
         (evictPod env (now s) (Namespace pod) (Name pod) g) s = (Some err, s')"
      "\<not> IsNotFound err" "\<not> retryable err" "r = Some err"
proof -
  note u = run [unfolded evictLoop.simps [of env ctx pod g b m s]]
  show thesis
  proof (cases "ctx_Err ctx (now s)")
    case (Some e)
    with u have "r = Some e" "s' = s" by auto
    with Some show thesis by (intro Done)
  next
    case None
    obtain x s1 where c: "call (Some ctx) (EvictPod (Namespace pod) (Name pod) g)
         (evictPod env (now s) (Namespace pod) (Name pod) g) s = (x, s1)"
      by (cases "call (Some ctx) (EvictPod (Namespace pod) (Name pod) g)
         (evictPod env (now s) (Namespace pod) (Name pod) g) s") blast
    show thesis
    proof (cases x)
      case xn: None
      with u None c have "waitPodDeleted env ctx (Namespace pod) (Name pod) s1 = (r, s')" by simp
      with None c xn show thesis by (intro Accepted) auto
    next
      case xs: (Some err)
      show thesis
      proof (cases "IsNotFound err")
        case True
        with u None c xs have "r = None" "s1 = s'" by auto
        with None c xs True show thesis by (intro Gone) auto
      next
        case nf: False
        show thesis
        proof (cases "retryable err")
          case False
          with u None c xs nf have "r = Some err" "s1 = s'" by (auto simp: retryable_def)
          with None c xs nf False show thesis by (intro Fatal) auto
        next
          case True
          obtain y s2 where sl: "sleepOrDone env ctx b s1 = (y, s2)"
            by (cases "sleepOrDone env ctx b s1") blast
          show thesis
          proof (cases y)
            case None
            with u \<open>ctx_Err ctx (now s) = None\<close> c xs nf True sl
            have "evictLoop env ctx pod g (nextBackoff b m) m s2 = (r, s')"
              by (auto simp: retryable_def split: if_splits)
            with \<open>ctx_Err ctx (now s) = None\<close> c xs nf True sl None show thesis
              by (intro Retry) auto
          next
            case (Some cerr)
            with u None c xs nf True sl have "r = Some cerr" "s2 = s'"
              by (auto simp: retryable_def split: if_splits)
            with None c xs nf True sl Some show thesis by (intro Cut) auto
          qed
        qed
      qed
    qed
  qed
qed

lemma evictLoop_run_induct [consumes 1, case_names Done Accepted Gone Cut Retry Fatal]:
  assumes run: "evictLoop env ctx pod g b m s = (r, s')"
    and hDone: "\<And>b s e. ctx_Err ctx (now s) = Some e \<Longrightarrow> P b s (Some e) s"
    and hAccepted: "\<And>b s s1 r s'. ctx_Err ctx (now s) = None \<Longrightarrow>
      call (Some ctx) (EvictPod (Namespace pod) (Name pod) g)
         (evictPod env (now s) (Namespace pod) (Name pod) g) s = (None, s1) \<Longrightarrow>
      waitPodDeleted env ctx (Namespace pod) (Name pod) s1 = (r, s') \<Longrightarrow> P b s r s'"
    and hGone: "\<And>b s err s'. ctx_Err ctx (now s) = None \<Longrightarrow>
      call (Some ctx) (EvictPod (Namespace pod) (Name pod) g)
         (evictPod env (now s) (Namespace pod) (Name pod) g) s = (Some err, s') \<Longrightarrow>
      IsNotFound err \<Longrightarrow> P b s None s'"
    and hCut: "\<And>b s err s1 cerr s'. ctx_Err ctx (now s) = None \<Longrightarrow>
      call (Some ctx) (EvictPod (Namespace pod) (Name pod) g)
         (evictPod env (now s) (Namespace pod) (Name pod) g) s = (Some err, s1) \<Longrightarrow>
      \<not> IsNotFound err \<Longrightarrow> retryable err \<Longrightarrow>
      sleepOrDone env ctx b s1 = (Some cerr, s') \<Longrightarrow> P b s (Some cerr) s'"
    and hRetry: "\<And>b s err s1 s2 r s'. ctx_Err ctx (now s) = None \<Longrightarrow>
      call (Some ctx) (EvictPod (Namespace pod) (Name pod) g)
         (evictPod env (now s) (Namespace pod) (Name pod) g) s = (Some err, s1) \<Longrightarrow>
      \<not> IsNotFound err \<Longrightarrow> retryable err \<Longrightarrow>
      sleepOrDone env ctx b s1 = (None, s2) \<Longrightarrow>
      evictLoop env ctx pod g (nextBackoff b m) m s2 = (r, s') \<Longrightarrow>
      P (nextBackoff b m) s2 r s' \<Longrightarrow> P b s r s'"
    and hFatal: "\<And>b s err s'. ctx_Err ctx (now s) = None \<Longrightarrow>
      call (Some ctx) (EvictPod (Namespace pod) (Name pod) g)
         (evictPod env (now s) (Namespace pod) (Name pod) g) s = (Some err, s') \<Longrightarrow>
      \<not> IsNotFound err \<Longrightarrow> \<not> retryable err \<Longrightarrow> P b s (Some err) s'"
  shows "P b s r s'"
  using run
proof (induction "nat (doneAt ctx - now s)" arbitrary: b s rule: less_induct)
  case less
  from less.prems show ?case
  proof (cases rule: evictLoop_cases)
    case (Retry err s1 s2)
    have "nat (doneAt ctx - now s2) < nat (doneAt ctx - now s)"
      by (rule evict_step [OF Retry(2) [symmetric] Retry(1) Retry(5) [symmetric]])
    then have "P (nextBackoff b m) s2 r s'"
      using less.hyps Retry(6) by blast
    then show ?thesis
      by (rule hRetry [OF Retry(1) Retry(2) Retry(3) Retry(4) Retry(5) Retry(6)])
  next
    case (Done e)
    then show ?thesis using hDone by simp
  next
    case (Accepted s1)
    then show ?thesis using hAccepted by blast
  next
    case (Gone err)
    then show ?thesis using hGone by blast
  next
    case (Cut err s1 cerr)
    then show ?thesis using hCut by blast
  next
    case (Fatal err)
    then show ?thesis using hFatal by blast
  qed
qed

lemma evictLoop_sleeps:
  "evictLoop env ctx pod g b m s = (r, s') \<Longrightarrow>
     \<exists>n. sleeps (trace s') = sleeps (trace s) @ backoffs n b m"
proof (induction rule: evictLoop_run_induct)
  case (Done b s e)
  show ?case by (rule exI [of _ 0]) simp
next
  case (Accepted b s s1 r s')
  then have "sleeps (trace s') = sleeps (trace s)"
    by (auto dest!: call_trace waitPodDeleted_sleeps simp: sleeps_append)
  then show ?case by (intro exI [of _ 0]) simp
next
  case (Gone b s err s')
  then have "sleeps (trace s') = sleeps (trace s)"
    by (auto dest!: call_trace simp: sleeps_append)
  then show ?case by (intro exI [of _ 0]) simp
next
  case (Cut b s err s1 cerr s')
  then have "sleeps (trace s') = sleeps (trace s) @ [b]"
    by (auto dest!: call_trace sleepOrDone_trace simp: sleeps_append)
  then show ?case by (intro exI [of _ 1]) simp
next
  case (Retry b s err s1 s2 r s')
  then obtain n where "sleeps (trace s') = sleeps (trace s2) @ backoffs n (nextBackoff b m) m"
    by blast
  moreover from Retry have "sleeps (trace s2) = sleeps (trace s) @ [b]"
    by (auto dest!: call_trace sleepOrDone_trace simp: sleeps_append)
  ultimately show ?case by (intro exI [of _ "Suc n"]) simp
next
  case (Fatal b s err s')
  then have "sleeps (trace s') = sleeps (trace s)"
    by (auto dest!: call_trace simp: sleeps_append)
  then show ?case by (intro exI [of _ 0]) simp
qed

lemma call_reply:
  "call ctx rq ans s = (Some err, s') \<Longrightarrow> fst ans = Some e \<Longrightarrow> err = e"
  by (auto simp: call_def Let_def split: option.splits)

lemma call_accepted: "call ctx rq ans s = (None, s') \<Longrightarrow> fst ans = None"
  by (auto simp: call_def Let_def split: option.splits)

lemma evictLoop_attempts:
  "evictLoop env ctx pod g b m s = (r, s') \<Longrightarrow>
     \<exists>ts. evictTimes (trace s') = evictTimes (trace s) @ ts
        \<and> (\<forall>t \<in> set ts. ctx_Err ctx t = None)
        \<and> (\<forall>t \<in> set ts. \<forall>e. fst (evictPod env t (Namespace pod) (Name pod) g) = Some e
              \<longrightarrow> IsNotFound e \<longrightarrow> r = None)"
proof (induction rule: evictLoop_run_induct)
  case (Done b s e)
  show ?case by (rule exI [of _ "[]"]) simp
next
  case (Accepted b s s1 r s')
  then have "evictTimes (trace s') = evictTimes (trace s) @ [now s]"
    by (auto dest!: call_trace waitPodDeleted_evictTimes simp: evictTimes_append)
  moreover from Accepted(2) have "fst (evictPod env (now s) (Namespace pod) (Name pod) g) = None"
    by (rule call_accepted)
  ultimately show ?case using Accepted(1) by (intro exI [of _ "[now s]"]) simp
next
  case (Gone b s err s')
  then have "evictTimes (trace s') = evictTimes (trace s) @ [now s]"
    by (auto dest!: call_trace simp: evictTimes_append)
  then show ?case using Gone(1) by (intro exI [of _ "[now s]"]) simp
next
  case (Cut b s err s1 cerr s')
  then have "evictTimes (trace s') = evictTimes (trace s) @ [now s]"
    by (auto dest!: call_trace sleepOrDone_trace simp: evictTimes_append)
  moreover have "\<forall>e. fst (evictPod env (now s) (Namespace pod) (Name pod) g) = Some e \<longrightarrow> \<not> IsNotFound e"
    using call_reply [OF Cut(2)] Cut(3) by blast
  ultimately show ?case using Cut(1) by (intro exI [of _ "[now s]"]) simp
next
  case (Retry b s err s1 s2 r s')
  then obtain ts where ts: "evictTimes (trace s') = evictTimes (trace s2) @ ts"
      "\<forall>t \<in> set ts. ctx_Err ctx t = None"
      "\<forall>t \<in> set ts. \<forall>e. fst (evictPod env t (Namespace pod) (Name pod) g) = Some e
              \<longrightarrow> IsNotFound e \<longrightarrow> r = None"
    by blast
  from Retry have "evictTimes (trace s2) = evictTimes (trace s) @ [now s]"
    by (auto dest!: call_trace sleepOrDone_trace simp: evictTimes_append)
  with ts(1) have "evictTimes (trace s') = evictTimes (trace s) @ (now s # ts)" by simp
  moreover have "\<forall>e. fst (evictPod env (now s) (Namespace pod) (Name pod) g) = Some e \<longrightarrow> \<not> IsNotFound e"
    using call_reply [OF Retry(2)] Retry(3) by blast
  ultimately show ?case using Retry(1) ts(2,3) by (intro exI [of _ "now s # ts"]) simp
next
  case (Fatal b s err s')
  then have "evictTimes (trace s') = evictTimes (trace s) @ [now s]"
    by (auto dest!: call_trace simp: evictTimes_append)
  moreover have "\<forall>e. fst (evictPod env (now s) (Namespace pod) (Name pod) g) = Some e \<longrightarrow> \<not> IsNotFound e"
    using call_reply [OF Fatal(2)] Fatal(3) by blast
  ultimately show ?case using Fatal(1) by (intro exI [of _ "[now s]"]) simp
qed

lemma evictLoop_expired: "ctx_Err ctx (now s) = Some e \<Longrightarrow> evictLoop env ctx pod g b m s = (Some e, s)"
  by (simp add: evictLoop.simps)

subsection \<open>The sequence of backoffs\<close>

lemma wrap64_id: "- (2 ^ 63) \<le> x \<Longrightarrow> x < 2 ^ 63 \<Longrightarrow> wrap64 x = x"
  by (simp add: wrap64_def)

lemma nextBackoff_small:
  assumes "0 < b" "b < 2 ^ 62"
  shows "nextBackoff b m = min (2 * b) m"
proof -
  have "wrap64 (b * 2) = b * 2" using assms by (intro wrap64_id) auto
  then show ?thesis by (auto simp: nextBackoff_def Let_def)
qed

lemma length_backoffs: "length (backoffs n b m) = n"
  by (induction n arbitrary: b) auto

lemma hd_backoffs: "0 < n \<Longrightarrow> hd (backoffs n b m) = b"
  by (cases n) auto

lemma backoffs_nth: "i < n \<Longrightarrow> backoffs n b m ! i = ((\<lambda>x. nextBackoff x m) ^^ i) b"
proof (induction n arbitrary: b i)
  case 0
  then show ?case by simp
next
  case (Suc n)
  show ?case
  proof (cases i)
    case 0
    then show ?thesis by simp
  next
    case (Suc j)
    have "((\<lambda>x. nextBackoff x m) ^^ Suc j) b = ((\<lambda>x. nextBackoff x m) ^^ j) (nextBackoff b m)"
      by (simp only: funpow_Suc_right o_apply)
    with Suc Suc.prems Suc.IH [of j "nextBackoff b m"] show ?thesis
      by simp
  qed
qed

lemma backoffs_step:
  "Suc i < n \<Longrightarrow> backoffs n b m ! Suc i = nextBackoff (backoffs n b m ! i) m"
  by (simp add: backoffs_nth)

lemma backoffs_range:
  assumes "0 < m" "m < 2 ^ 62"
  shows "0 < b \<Longrightarrow> b < 2 ^ 62 \<Longrightarrow> d \<in> set (backoffs n b m) \<Longrightarrow> 0 < d \<and> d < 2 ^ 62"
proof (induction n arbitrary: b)
  case 0
  then show ?case by simp
next
  case (Suc n)
  have nb: "nextBackoff b m = min (2 * b) m" using Suc.prems by (intro nextBackoff_small)
  with Suc.prems assms have "0 < nextBackoff b m" "nextBackoff b m < 2 ^ 62" by auto
  with Suc.IH [of "nextBackoff b m"] Suc.prems show ?case by auto
qed

lemma backoffs_capped:
  assumes "0 < m" "m < 2 ^ 62"
  shows "0 < b \<Longrightarrow> b \<le> m \<Longrightarrow> d \<in> set (backoffs n b m) \<Longrightarrow> b \<le> d \<and> d \<le> m"
proof (induction n arbitrary: b)
  case 0
  then show ?case by simp
next
  case (Suc n)
  have nb: "nextBackoff b m = min (2 * b) m" using Suc.prems assms by (intro nextBackoff_small) auto
  with Suc.prems assms have "0 < nextBackoff b m" "nextBackoff b m \<le> m" "b \<le> nextBackoff b m" by auto
  with Suc.IH [of "nextBackoff b m"] Suc.prems show ?case by auto
qed

lemma backoffs_sorted:
  assumes "0 < m" "m < 2 ^ 62"
  shows "0 < b \<Longrightarrow> b \<le> m \<Longrightarrow> sorted (backoffs n b m)"
proof (induction n arbitrary: b)
  case 0
  then show ?case by simp
next
  case (Suc n)
  have nb: "nextBackoff b m = min (2 * b) m" using Suc.prems assms by (intro nextBackoff_small) auto
  with Suc.prems assms have *: "0 < nextBackoff b m" "nextBackoff b m \<le> m" "b \<le> nextBackoff b m" by auto
  have "\<forall>d\<in>set (backoffs n (nextBackoff b m) m). b \<le> d"
    using backoffs_capped [OF assms *(1) *(2)] *(3) by fastforce
  with Suc.IH [OF *(1) *(2)] show ?case by simp
qed

lemma backoffs_tail_capped:
  assumes "0 < m" "m < 2 ^ 62" "0 < b" "b < 2 ^ 62" "d \<in> set (tl (backoffs n b m))"
  shows "d \<le> m"
proof (cases n)
  case 0
  with assms show ?thesis by simp
next
  case (Suc k)
  have nb: "nextBackoff b m = min (2 * b) m" using assms by (intro nextBackoff_small)
  with assms have *: "0 < nextBackoff b m" "nextBackoff b m \<le> m" by auto
  from Suc assms(5) have "d \<in> set (backoffs k (nextBackoff b m) m)" by simp
  with backoffs_capped [OF assms(1,2) *] show ?thesis by blast
qed

lemma default_sequence:
  "((\<lambda>x. nextBackoff x (10000 * Millisecond)) ^^ i) (1000 * Millisecond) =
     (if i < 4 then 2 ^ i * 1000 * Millisecond else 10000 * Millisecond)"
proof (induction i)
  case 0
  then show ?case by simp
next
  case (Suc i)
  have "i = 0 \<or> i = 1 \<or> i = 2 \<or> i = 3 \<or> 4 \<le> i" by arith
  with Suc show ?case
    by (auto simp: nextBackoff_def Let_def wrap64_def Millisecond_def)
qed

subsection \<open>The defaults of the engine\<close>

lemma evictWithRetry_defaults:
  "evictWithRetry env ctx pod g initialBackoff maxBackoff s =
     evictLoop env ctx pod g (if initialBackoff \<le> 0 then 1 * Second else initialBackoff)
       (if maxBackoff \<le> 0 then 10 * Second else maxBackoff) s"
  by (simp add: evictWithRetry_def Let_def)

section \<open>Cordon\<close>

text \<open>
  C9. A cordon sends at most one request, a patch of the named node, and the patch is
  the object with the single member \<^verbatim>\<open>spec\<close>, itself the object with the single
  member \<^verbatim>\<open>unschedulable\<close> set to true. Nothing else of the node is in the patch.
\<close>

theorem cordon_patches_only_unschedulable:
  "trace (snd (K8sCordon env ctx nodeName s)) =
     (if nodeName \<noteq> [] \<and> kubeClient env
      then trace s @ [Request (now s) (PatchNode nodeName
             (JObject [(''spec'', JObject [(''unschedulable'', JBool True)])]))]
      else trace s)"
  by (simp add: K8sCordon_def getClient_def call_def cordonPatch_def Let_def split: option.splits)

theorem cordon_patches_only_unschedulable_witness:
  "trace (snd (K8sCordon (calmCluster []) None ''n1'' start)) =
     [Request 0 (PatchNode ''n1'' (JObject [(''spec'', JObject [(''unschedulable'', JBool True)])]))]"
  using cordon_patches_only_unschedulable [of "calmCluster []" None "''n1''" start]
  by (simp add: calmCluster_def start_def)

section \<open>The sequence of sleeps\<close>

text \<open>
  C4, as the code has it. The claim holds when the initial backoff is at most the
  maximal one; the code does not cap the initial backoff, so a larger one is slept in
  full, once. Durations are int64: the statement is for backoffs below \<open>2 ^ 62\<close>
  nanoseconds, whose double is still an int64.

  For every run of \<^verbatim>\<open>evictWithRetry\<close> with positive initial and maximal backoff, the
  sleeps of the run, in order, start with the initial backoff; each next sleep is the
  double of the one before, capped at the maximal backoff; every sleep but the first is
  at most the maximal backoff; when the initial backoff is at most the maximal one the
  sequence is non-decreasing and no sleep exceeds the maximal backoff; and with 1000 ms
  and 10000 ms the sequence is 1000, 2000, 4000, 8000, 10000, 10000, ... ms.
\<close>

theorem backoff_doubles_up_to_the_cap:
  assumes pos: "0 < initialBackoff" "0 < maxBackoff"
    and small: "initialBackoff < 2 ^ 62" "maxBackoff < 2 ^ 62"
    and run: "evictWithRetry env ctx pod g initialBackoff maxBackoff s = (r, s')"
    and sl: "sl = drop (length (sleeps (trace s))) (sleeps (trace s'))"
  shows "(sl \<noteq> [] \<longrightarrow> hd sl = initialBackoff)
       \<and> (\<forall>i. Suc i < length sl \<longrightarrow> sl ! Suc i = min (2 * sl ! i) maxBackoff)
       \<and> (\<forall>d \<in> set (tl sl). d \<le> maxBackoff)
       \<and> (initialBackoff \<le> maxBackoff \<longrightarrow> sorted sl \<and> (\<forall>d \<in> set sl. d \<le> maxBackoff))
       \<and> (initialBackoff = 1000 * Millisecond \<and> maxBackoff = 10000 * Millisecond \<longrightarrow>
            (\<forall>i < length sl. sl ! i = (if i < 4 then 2 ^ i * 1000 * Millisecond else 10000 * Millisecond)))"
proof -
  from run pos have "evictLoop env ctx pod g initialBackoff maxBackoff s = (r, s')"
    by (simp add: evictWithRetry_def)
  then obtain n where "sleeps (trace s') = sleeps (trace s) @ backoffs n initialBackoff maxBackoff"
    by (auto dest: evictLoop_sleeps)
  with sl have eq: "sl = backoffs n initialBackoff maxBackoff" by simp
  have first: "sl \<noteq> [] \<longrightarrow> hd sl = initialBackoff"
    unfolding eq by (cases n) auto
  have step: "\<forall>i. Suc i < length sl \<longrightarrow> sl ! Suc i = min (2 * sl ! i) maxBackoff"
  proof (intro allI impI)
    fix i assume i: "Suc i < length sl"
    then have n: "Suc i < n" by (simp add: eq length_backoffs)
    then have "sl ! i \<in> set sl" using i by simp
    then have "0 < sl ! i \<and> sl ! i < 2 ^ 62"
      unfolding eq using backoffs_range [OF pos(2) small(2) pos(1) small(1)] by blast
    then have "nextBackoff (sl ! i) maxBackoff = min (2 * sl ! i) maxBackoff"
      by (intro nextBackoff_small) auto
    with backoffs_step [OF n, of initialBackoff maxBackoff] show "sl ! Suc i = min (2 * sl ! i) maxBackoff"
      by (simp add: eq)
  qed
  have later: "\<forall>d \<in> set (tl sl). d \<le> maxBackoff"
    unfolding eq using backoffs_tail_capped [OF pos(2) small(2) pos(1) small(1)] by blast
  have mono: "initialBackoff \<le> maxBackoff \<longrightarrow> sorted sl \<and> (\<forall>d \<in> set sl. d \<le> maxBackoff)"
    unfolding eq
    using backoffs_sorted [OF pos(2) small(2) pos(1)] backoffs_capped [OF pos(2) small(2) pos(1)]
    by blast
  have example: "initialBackoff = 1000 * Millisecond \<and> maxBackoff = 10000 * Millisecond \<longrightarrow>
      (\<forall>i < length sl. sl ! i = (if i < 4 then 2 ^ i * 1000 * Millisecond else 10000 * Millisecond))"
    unfolding eq by (auto simp: length_backoffs backoffs_nth default_sequence simp del: mult_numeral_left)
  from first step later mono example show ?thesis by blast
qed


text \<open>
  The run of the witness: every eviction is refused with "too many requests", the
  context ends after 30 s.
\<close>

theorem backoff_doubles_up_to_the_cap_witness:
  "0 < 1000 * Millisecond \<and> 1000 * Millisecond \<le> 10000 * Millisecond
   \<and> 10000 * Millisecond < 2 ^ 62
   \<and> sleeps (trace (snd (evictWithRetry (congestedCluster []) (until (30 * Second)) webPod None
       (1000 * Millisecond) (10000 * Millisecond) start)))
     = [1000 * Millisecond, 2000 * Millisecond, 4000 * Millisecond, 8000 * Millisecond,
        10000 * Millisecond, 10000 * Millisecond]
   \<and> sorted [1000 * Millisecond, 2000 * Millisecond, 4000 * Millisecond, 8000 * Millisecond,
        10000 * Millisecond, 10000 * Millisecond]"
proof -
  obtain r s' where run: "evictWithRetry (congestedCluster []) (until (30 * Second)) webPod None
       (1000 * Millisecond) (10000 * Millisecond) start = (r, s')"
    by (cases "evictWithRetry (congestedCluster []) (until (30 * Second)) webPod None
       (1000 * Millisecond) (10000 * Millisecond) start") blast
  have ev: "sleeps (trace (snd (evictWithRetry (congestedCluster []) (until (30 * Second)) webPod None
       (1000 * Millisecond) (10000 * Millisecond) start)))
     = [1000 * Millisecond, 2000 * Millisecond, 4000 * Millisecond, 8000 * Millisecond,
        10000 * Millisecond, 10000 * Millisecond]"
    by (simp add: evictWithRetry_def evictLoop.simps congestedCluster_def until_def webPod_def start_def
      Second_def Millisecond_def ctx_Err_def call_def sleepOrDone_def busyError_def nextBackoff_def wrap64_def Let_def)
  have "sorted (drop (length (sleeps (trace start))) (sleeps (trace s')))"
    using backoff_doubles_up_to_the_cap [OF _ _ _ _ run refl]
    by (simp add: Millisecond_def)
  with run ev show ?thesis by (simp add: start_def Millisecond_def)
qed


text \<open>
  C4 as it was stated fails where the initial backoff exceeds the maximal one: with 20 s
  and 10 s the sleeps are 20 s, then 10 s.
\<close>

theorem uncapped_first_backoff_counterexample:
  "0 < 20 * Second \<and> 0 < 10 * Second
   \<and> sleeps (trace (snd (evictWithRetry (congestedCluster []) (until (25 * Second)) webPod None
        (20 * Second) (10 * Second) start))) = [20 * Second, 10 * Second]
   \<and> \<not> sorted [20 * Second, 10 * Second]
   \<and> \<not> 20 * Second \<le> 10 * Second"
  by (simp add: evictWithRetry_def evictLoop.simps congestedCluster_def until_def webPod_def start_def
      Second_def ctx_Err_def call_def sleepOrDone_def busyError_def nextBackoff_def wrap64_def Let_def)

section \<open>The deadline and the attempts\<close>

text \<open>
  C6. Each turn of the retry loop reads the context's error before it sends the
  eviction. A run that starts when the context is already done returns the context's
  error at once: it sends nothing and no time passes. And in every run, each eviction
  is sent at an instant at which the context is not done, so none is sent once the
  deadline has passed.
\<close>

theorem deadline_checked_before_each_attempt:
  assumes run: "evictWithRetry env ctx pod g initialBackoff maxBackoff s = (r, s')"
  shows "(\<forall>e. ctx_Err ctx (now s) = Some e \<longrightarrow> r = Some e \<and> s' = s)
       \<and> (\<forall>t \<in> set (drop (length (evictTimes (trace s))) (evictTimes (trace s'))).
             ctx_Err ctx t = None)"
proof -
  obtain b m where loop: "evictLoop env ctx pod g b m s = (r, s')"
    using run by (auto simp: evictWithRetry_def Let_def)
  have "\<forall>e. ctx_Err ctx (now s) = Some e \<longrightarrow> r = Some e \<and> s' = s"
    using loop by (auto simp: evictLoop_expired)
  moreover from evictLoop_attempts [OF loop]
  have "\<forall>t \<in> set (drop (length (evictTimes (trace s))) (evictTimes (trace s'))). ctx_Err ctx t = None"
    by auto
  ultimately show ?thesis by blast
qed


text \<open>
  Two runs under constant refusals: one whose context is done from the start, and one
  with a deadline of 3 s and an initial backoff of 2 s, which sends two evictions, at
  0 and just after 2 s, and none after the deadline.
\<close>

theorem deadline_checked_before_each_attempt_witness:
  "evictWithRetry (congestedCluster []) (until 0) webPod None Second (10 * Second) start
     = (Some DeadlineExceeded, start)
   \<and> evictTimes (trace (snd (evictWithRetry (congestedCluster []) (until (3 * Second)) webPod None
        (2 * Second) (10 * Second) start))) = [0, 2 * Second + 1]
   \<and> ctx_Err (until (3 * Second)) 0 = None
   \<and> ctx_Err (until (3 * Second)) (2 * Second + 1) = None"
proof -
  obtain r s' where run: "evictWithRetry (congestedCluster []) (until (3 * Second)) webPod None
        (2 * Second) (10 * Second) start = (r, s')"
    by (cases "evictWithRetry (congestedCluster []) (until (3 * Second)) webPod None
        (2 * Second) (10 * Second) start") blast
  have ev: "evictTimes (trace (snd (evictWithRetry (congestedCluster []) (until (3 * Second)) webPod None
        (2 * Second) (10 * Second) start))) = [0, 2 * Second + 1]"
    by (simp add: evictWithRetry_def evictLoop.simps congestedCluster_def until_def webPod_def start_def
      Second_def ctx_Err_def call_def sleepOrDone_def busyError_def nextBackoff_def wrap64_def Let_def)
  have ex: "evictWithRetry (congestedCluster []) (until 0) webPod None Second (10 * Second) start
     = (Some DeadlineExceeded, start)"
    by (simp add: evictWithRetry_def evictLoop.simps until_def start_def Second_def ctx_Err_def Let_def)
  from deadline_checked_before_each_attempt [OF run] run ev
  have "ctx_Err (until (3 * Second)) 0 = None \<and> ctx_Err (until (3 * Second)) (2 * Second + 1) = None"
    by (simp add: start_def)
  with ev ex show ?thesis by simp
qed

section \<open>A pod that is already gone\<close>

text \<open>
  C5. For a pod that the guards of the loop let through to eviction: when one of the
  evictions the engine sends for it is answered "not found", the engine returns no
  error and the entry of the pod has the action \<^verbatim>\<open>evicted\<close> and no error text.
\<close>

theorem not_found_counts_as_evicted:
  assumes routed: "\<not> isCompletedPod pod" "\<not> isMirrorPod pod"
      "\<not> (ignore_daemonsets args \<and> isOwnedBy pod ''DaemonSet'')"
      "\<not> (\<not> delete_local_data args \<and> hasLocalData pod \<and> \<not> force args)"
    and run: "evictWithRetry env ctx pod g (wrap64 (retry_backoff_ms args * Millisecond))
                (wrap64 (max_backoff_ms args * Millisecond)) s = (r, s')"
    and sent: "t \<in> set (drop (length (evictTimes (trace s))) (evictTimes (trace s')))"
    and reply: "fst (evictPod env t (Namespace pod) (Name pod) g) = Some err" "IsNotFound err"
  shows "r = None
       \<and> drainPod env ctx args g pod s =
           (Some \<lparr>r_Namespace = Namespace pod, r_Name = Name pod, Action = ''evicted'', Error = []\<rparr>, s')"
proof -
  obtain b m where loop: "evictLoop env ctx pod g b m s = (r, s')"
    using run by (auto simp: evictWithRetry_def Let_def)
  from evictLoop_attempts [OF loop] sent reply have r: "r = None"
    by auto
  with routed run show ?thesis
    by (simp add: drainPod_def evictOrForce_def)
qed


text \<open>The run of the witness: the first eviction of an ordinary pod is answered "not found".\<close>

theorem not_found_counts_as_evicted_witness:
  "\<not> isCompletedPod webPod \<and> \<not> isMirrorPod webPod \<and> \<not> hasLocalData webPod
   \<and> evictTimes (trace (snd (evictWithRetry (goneCluster [webPod]) (until (600 * Second)) webPod None
        (wrap64 (retry_backoff_ms plainArgs * Millisecond))
        (wrap64 (max_backoff_ms plainArgs * Millisecond)) start))) = [0]
   \<and> fst (evictPod (goneCluster [webPod]) 0 (Namespace webPod) (Name webPod) None) = Some goneError
   \<and> IsNotFound goneError
   \<and> fst (drainPod (goneCluster [webPod]) (until (600 * Second)) plainArgs None webPod start)
       = Some \<lparr>r_Namespace = ''default'', r_Name = ''web'', Action = ''evicted'', Error = []\<rparr>"
proof -
  let ?run = "evictWithRetry (goneCluster [webPod]) (until (600 * Second)) webPod None
        (wrap64 (retry_backoff_ms plainArgs * Millisecond))
        (wrap64 (max_backoff_ms plainArgs * Millisecond)) start"
  obtain r s' where run: "?run = (r, s')" by (cases ?run) blast
  have ev: "evictTimes (trace (snd ?run)) = [0]"
    by (simp add: evictWithRetry_def evictLoop.simps goneCluster_def until_def webPod_def start_def
      plainArgs_def Second_def Millisecond_def ctx_Err_def call_def goneError_def wrap64_def Let_def)
  have pod: "\<not> isCompletedPod webPod" "\<not> isMirrorPod webPod" "\<not> hasLocalData webPod"
    by (simp_all add: isCompletedPod_def isMirrorPod_def hasLocalData_def webPod_def)
  have reply: "fst (evictPod (goneCluster [webPod]) 0 (Namespace webPod) (Name webPod) None) = Some goneError"
    "IsNotFound goneError"
    by (simp_all add: goneCluster_def goneError_def)
  have sent: "0 \<in> set (drop (length (evictTimes (trace start))) (evictTimes (trace s')))"
    using ev run by (simp add: start_def)
  have "drainPod (goneCluster [webPod]) (until (600 * Second)) plainArgs None webPod start =
     (Some \<lparr>r_Namespace = Namespace webPod, r_Name = Name webPod, Action = ''evicted'', Error = []\<rparr>, s')"
    using not_found_counts_as_evicted [OF pod(1) pod(2) _ _ run sent reply] pod(3)
    by (simp add: plainArgs_def)
  with ev pod reply show ?thesis by (simp add: webPod_def)
qed

section \<open>The loop over the listed pods\<close>

lemma ownerLoop_iff: "ownerLoop rs kind \<longleftrightarrow> (\<exists>r \<in> set rs. Kind r = kind)"
  by (induction rs) auto

lemma volumeLoop_iff: "volumeLoop vs \<longleftrightarrow> (\<exists>v \<in> set vs. EmptyDir v \<noteq> None \<or> HostPath v \<noteq> None)"
  by (induction vs) auto

lemma evictOrForce_trace:
  "\<exists>evs. trace (snd (evictOrForce env ctx args g pod s)) =
     trace (snd (evictWithRetry env ctx pod g (wrap64 (retry_backoff_ms args * Millisecond))
                  (wrap64 (max_backoff_ms args * Millisecond)) s)) @ evs"
  by (auto simp: evictOrForce_def split: prod.splits option.splits dest!: call_trace)


text \<open>
  C1. For every listed pod the body of the loop decides as the rule table of the
  specification does, in that order, the first rule that matches winning: a pod in a
  terminal phase gets no entry; a pod with the mirror annotation gets the mirror skip;
  with DaemonSet pods ignored, a pod with a DaemonSet owner gets the daemonset skip; a
  pod with an emptyDir or hostPath volume gets the local-data skip when neither
  \<^verbatim>\<open>delete_local_data\<close> nor \<^verbatim>\<open>force\<close> is set; and every other pod is handed to the
  eviction engine. A skip sends nothing to the cluster and takes no time; what follows
  the guards starts with the run of \<^verbatim>\<open>evictWithRetry\<close>. In particular a pod with local
  data that the first three rules let through goes to eviction as soon as either flag
  is set.
\<close>

theorem classifier_rules_in_order:
  "drainPod env ctx args g pod s =
     (case spec_classify pod args of
        NotProcessed \<Rightarrow> (None, s)
      | SkipMirror \<Rightarrow> (Some (skipped pod ''skipped (mirror/static pod)''), s)
      | SkipDaemonSet \<Rightarrow> (Some (skipped pod ''skipped (daemonset)''), s)
      | SkipLocalData \<Rightarrow>
          (Some (skipped pod ''skipped (local data; set delete_local_data=true or force=true)''), s)
      | ProceedToEvict \<Rightarrow> evictOrForce env ctx args g pod s)
   \<and> (\<exists>evs. trace (snd (evictOrForce env ctx args g pod s)) =
         trace (snd (evictWithRetry env ctx pod g (wrap64 (retry_backoff_ms args * Millisecond))
                      (wrap64 (max_backoff_ms args * Millisecond)) s)) @ evs)
   \<and> (\<not> isCompletedPod pod \<and> \<not> isMirrorPod pod
        \<and> \<not> (ignore_daemonsets args \<and> isOwnedBy pod ''DaemonSet'')
        \<and> hasLocalData pod \<and> (delete_local_data args \<or> force args)
      \<longrightarrow> drainPod env ctx args g pod s = evictOrForce env ctx args g pod s)"
proof -
  have a: "drainPod env ctx args g pod s =
     (case spec_classify pod args of
        NotProcessed \<Rightarrow> (None, s)
      | SkipMirror \<Rightarrow> (Some (skipped pod ''skipped (mirror/static pod)''), s)
      | SkipDaemonSet \<Rightarrow> (Some (skipped pod ''skipped (daemonset)''), s)
      | SkipLocalData \<Rightarrow>
          (Some (skipped pod ''skipped (local data; set delete_local_data=true or force=true)''), s)
      | ProceedToEvict \<Rightarrow> evictOrForce env ctx args g pod s)"
    by (auto simp: drainPod_def spec_classify_def skipped_def isCompletedPod_def isMirrorPod_def
        isOwnedBy_def hasLocalData_def ownerLoop_iff volumeLoop_iff dom_def)
  have c: "\<not> isCompletedPod pod \<and> \<not> isMirrorPod pod
        \<and> \<not> (ignore_daemonsets args \<and> isOwnedBy pod ''DaemonSet'')
        \<and> hasLocalData pod \<and> (delete_local_data args \<or> force args)
      \<longrightarrow> drainPod env ctx args g pod s = evictOrForce env ctx args g pod s"
    by (auto simp: drainPod_def)
  from a evictOrForce_trace c show ?thesis by blast
qed


text \<open>
  One pod for each rule, and the pod with an emptyDir volume again with \<^verbatim>\<open>force\<close>
  set, which is evicted.
\<close>

theorem classifier_rules_in_order_witness:
  "drainPod (calmCluster []) (until (600 * Second)) plainArgs None donePod start = (None, start)
   \<and> drainPod (calmCluster []) (until (600 * Second)) plainArgs None mirrorPod start
       = (Some \<lparr>r_Namespace = ''kube-system'', r_Name = ''etcd-n1'',
                Action = ''skipped (mirror/static pod)'', Error = []\<rparr>, start)
   \<and> drainPod (calmCluster []) (until (600 * Second)) (plainArgs\<lparr>ignore_daemonsets := True\<rparr>) None
         daemonPod start
       = (Some \<lparr>r_Namespace = ''kube-system'', r_Name = ''proxy'',
                Action = ''skipped (daemonset)'', Error = []\<rparr>, start)
   \<and> drainPod (calmCluster []) (until (600 * Second)) plainArgs None cachePod start
       = (Some \<lparr>r_Namespace = ''default'', r_Name = ''cache'',
                Action = ''skipped (local data; set delete_local_data=true or force=true)'',
                Error = []\<rparr>, start)
   \<and> hasLocalData cachePod
   \<and> drainPod (calmCluster []) (until (600 * Second)) (plainArgs\<lparr>force := True\<rparr>) None cachePod start
       = evictOrForce (calmCluster []) (until (600 * Second)) (plainArgs\<lparr>force := True\<rparr>) None
           cachePod start
   \<and> fst (evictOrForce (calmCluster []) (until (600 * Second)) (plainArgs\<lparr>force := True\<rparr>) None
           cachePod start)
       = Some \<lparr>r_Namespace = ''default'', r_Name = ''cache'', Action = ''evicted'', Error = []\<rparr>"
proof -
  have cls: "spec_classify donePod plainArgs = NotProcessed"
    "spec_classify mirrorPod plainArgs = SkipMirror"
    "spec_classify daemonPod (plainArgs\<lparr>ignore_daemonsets := True\<rparr>) = SkipDaemonSet"
    "spec_classify cachePod plainArgs = SkipLocalData"
    "spec_classify cachePod (plainArgs\<lparr>force := True\<rparr>) = ProceedToEvict"
    by (simp_all add: spec_classify_def donePod_def mirrorPod_def daemonPod_def cachePod_def plainArgs_def)
  have loc: "hasLocalData cachePod"
    by (simp add: hasLocalData_def cachePod_def)
  have ev: "fst (evictOrForce (calmCluster []) (until (600 * Second)) (plainArgs\<lparr>force := True\<rparr>) None
           cachePod start)
       = Some \<lparr>r_Namespace = ''default'', r_Name = ''cache'', Action = ''evicted'', Error = []\<rparr>"
    by (simp add: evictOrForce_def evictWithRetry_def evictLoop.simps waitPodDeleted.simps
        calmCluster_def until_def cachePod_def start_def plainArgs_def Second_def Millisecond_def
        ctx_Err_def call_def goneError_def wrap64_def Let_def)
  show ?thesis
    using classifier_rules_in_order [of "calmCluster []" "until (600 * Second)" plainArgs None donePod start]
      classifier_rules_in_order [of "calmCluster []" "until (600 * Second)" plainArgs None mirrorPod start]
      classifier_rules_in_order [of "calmCluster []" "until (600 * Second)"
        "plainArgs\<lparr>ignore_daemonsets := True\<rparr>" None daemonPod start]
      classifier_rules_in_order [of "calmCluster []" "until (600 * Second)" plainArgs None cachePod start]
      classifier_rules_in_order [of "calmCluster []" "until (600 * Second)"
        "plainArgs\<lparr>force := True\<rparr>" None cachePod start]
      cls loc ev
    by (simp add: skipped_def donePod_def mirrorPod_def daemonPod_def cachePod_def)
qed

section \<open>Runs of a drain\<close>

lemma evictOrForce_entry:
  "evictOrForce env ctx args g pod s = (ro, s') \<Longrightarrow>
     \<exists>r. ro = Some r \<and> resultKey r = podKey pod
        \<and> Action r \<in> {''evicted'', ''force_deleted'', ''evict_failed'', ''evict_failed_delete_failed''}"
  by (auto simp: evictOrForce_def resultKey_def podKey_def split: prod.splits option.splits if_splits)

lemma drainPod_entry:
  assumes "drainPod env ctx args g pod s = (ro, s')"
  shows "(isCompletedPod pod \<longrightarrow> ro = None)
       \<and> (\<not> isCompletedPod pod \<longrightarrow>
            (\<exists>r. ro = Some r \<and> resultKey r = podKey pod \<and> Action r \<in> set actions))"
proof (cases "isCompletedPod pod \<or> isMirrorPod pod
    \<or> (ignore_daemonsets args \<and> isOwnedBy pod ''DaemonSet'')
    \<or> (\<not> delete_local_data args \<and> hasLocalData pod \<and> \<not> force args)")
  case True
  with assms show ?thesis
    by (auto simp: drainPod_def resultKey_def podKey_def actions_def split: if_splits)
next
  case False
  with assms have "evictOrForce env ctx args g pod s = (ro, s')"
    by (auto simp: drainPod_def split: if_splits)
  from evictOrForce_entry [OF this] False show ?thesis
    by (auto simp: actions_def)
qed

lemma drainLoop_results:
  "drainLoop env ctx args g pods rs s = (rs', s') \<Longrightarrow>
     \<exists>new. rs' = rs @ new
        \<and> map resultKey new = map podKey (filter (\<lambda>p. \<not> isCompletedPod p) pods)
        \<and> (\<forall>r \<in> set new. Action r \<in> set actions)"
proof (induction pods arbitrary: rs s)
  case Nil
  then show ?case by simp
next
  case (Cons pod pods)
  obtain ro s1 where body: "drainPod env ctx args g pod s = (ro, s1)"
    by (cases "drainPod env ctx args g pod s") blast
  note entry = drainPod_entry [OF body]
  show ?case
  proof (cases ro)
    case None
    with entry have ended: "isCompletedPod pod" by auto
    from Cons.prems body None have "drainLoop env ctx args g pods rs s1 = (rs', s')" by simp
    from Cons.IH [OF this] ended show ?thesis by simp
  next
    case (Some r)
    with entry have live: "\<not> isCompletedPod pod" and r: "resultKey r = podKey pod" "Action r \<in> set actions"
      by auto
    from Cons.prems body Some have "drainLoop env ctx args g pods (rs @ [r]) s1 = (rs', s')" by simp
    from Cons.IH [OF this] obtain new where new: "rs' = (rs @ [r]) @ new"
        "map resultKey new = map podKey (filter (\<lambda>p. \<not> isCompletedPod p) pods)"
        "\<forall>r \<in> set new. Action r \<in> set actions"
      by blast
    show ?thesis
      using new live r by (intro exI [of _ "r # new"]) simp
  qed
qed

lemma reportEntries_summary:
  "reportEntries (textOKResult (Marshalled (summary args g results))) = map marshalPodResult results"
  by (simp add: reportEntries_def reportOf_def textOKResult_def summary_def)

lemma reportEntries_error: "reportEntries (textErrorResult (Plain m)) = []"
  by (simp add: reportEntries_def reportOf_def textErrorResult_def)

lemma entryPod_marshal: "entryPod (marshalPodResult r) = resultKey r"
  by (simp add: entryPod_def marshalPodResult_def resultKey_def)

lemma entryAction_marshal: "entryAction (marshalPodResult r) = Action r"
  by (simp add: entryAction_def marshalPodResult_def)

lemma K8sCordon_cases:
  "K8sCordon env ctx n s = (res, s1) \<Longrightarrow>
     (\<exists>m. res = textErrorResult (Plain m)) \<or> (\<exists>m. res = textOKResult (Plain m))"
  by (auto simp: K8sCordon_def getClient_def split: if_splits prod.splits option.splits)

lemma K8sCordon_ok:
  assumes "n \<noteq> []" "kubeClient env"
  shows "K8sCordon env ctx n s =
     (case call ctx (PatchNode n cordonPatch) (patchNode env (now s) n cordonPatch) s of
        (Some err, s1) \<Rightarrow> (textErrorResult (Plain (''Error cordoning node '' @ n @ '': '' @ errorText err)), s1)
      | (None, s1) \<Rightarrow> (textOKResult (Plain (''Node '' @ n @ '' cordoned successfully'')), s1))"
  using assms by (simp add: K8sCordon_def getClient_def)

text \<open>The three ways a drain with a node name and a client goes.\<close>

lemma K8sDrain_cordon_fails:
  assumes "node_name args \<noteq> []" "kubeClient env"
    and "call ctx (PatchNode (node_name args) cordonPatch)
           (patchNode env (now s) (node_name args) cordonPatch) s = (Some err, s1)"
  shows "K8sDrain env ctx args s =
     (textErrorResult (Plain (''Error cordoning node '' @ node_name args @ '': '' @ errorText err)), s1)"
  using assms
  by (simp add: K8sDrain_def Let_def getClient_def K8sCordon_ok textErrorResult_def)

lemma K8sDrain_list_fails:
  assumes "node_name args \<noteq> []" "kubeClient env"
    and "call ctx (PatchNode (node_name args) cordonPatch)
           (patchNode env (now s) (node_name args) cordonPatch) s = (None, s1)"
    and "callList ctx (ListPods (selector args)) (listPods env (now s1) (selector args)) s1 = (Inl err, s2)"
  shows "K8sDrain env ctx args s =
     (textErrorResult (Plain (''Error listing pods on node '' @ node_name args @ '': '' @ errorText err)), s2)"
  using assms
  by (simp add: K8sDrain_def Let_def getClient_def K8sCordon_ok textOKResult_def selector_def)

lemma K8sDrain_listed:
  assumes "node_name args \<noteq> []" "kubeClient env"
    and "call ctx (PatchNode (node_name args) cordonPatch)
           (patchNode env (now s) (node_name args) cordonPatch) s = (None, s1)"
    and "callList ctx (ListPods (selector args)) (listPods env (now s1) (selector args)) s1 = (Inr pods, s2)"
  shows "K8sDrain env ctx args s =
     (case drainLoop env (WithTimeout ctx (now s2) (wrap64 (timeout_seconds args * Second))) args
             (gracePtrOf args) pods [] s2 of
        (results, s3) \<Rightarrow> (textOKResult (Marshalled (summary args (gracePtrOf args) results)), s3))"
  using assms
  by (simp add: K8sDrain_def Let_def getClient_def K8sCordon_ok textOKResult_def selector_def gracePtrOf_def)

lemma K8sDrain_cases:
  obtains (NoName) "node_name args = []"
      "K8sDrain env ctx args s = (textErrorResult (Plain ''node_name is required''), s)"
  | (NoClient) "node_name args \<noteq> []" "\<not> kubeClient env"
      "K8sDrain env ctx args s = (textErrorResult (Plain ''Kubernetes client is not initialized''), s)"
  | (CordonFails) err s1 where "node_name args \<noteq> []" "kubeClient env"
      "call ctx (PatchNode (node_name args) cordonPatch)
           (patchNode env (now s) (node_name args) cordonPatch) s = (Some err, s1)"
      "K8sDrain env ctx args s =
         (textErrorResult (Plain (''Error cordoning node '' @ node_name args @ '': '' @ errorText err)), s1)"
  | (ListFails) err s1 s2 where "node_name args \<noteq> []" "kubeClient env"
      "call ctx (PatchNode (node_name args) cordonPatch)
           (patchNode env (now s) (node_name args) cordonPatch) s = (None, s1)"
      "callList ctx (ListPods (selector args)) (listPods env (now s1) (selector args)) s1 = (Inl err, s2)"
      "K8sDrain env ctx args s =
         (textErrorResult (Plain (''Error listing pods on node '' @ node_name args @ '': '' @ errorText err)), s2)"
  | (Listed) pods s1 s2 results s3 where "node_name args \<noteq> []" "kubeClient env"
      "call ctx (PatchNode (node_name args) cordonPatch)
           (patchNode env (now s) (node_name args) cordonPatch) s = (None, s1)"
      "callList ctx (ListPods (selector args)) (listPods env (now s1) (selector args)) s1 = (Inr pods, s2)"
      "drainLoop env (WithTimeout ctx (now s2) (wrap64 (timeout_seconds args * Second))) args
             (gracePtrOf args) pods [] s2 = (results, s3)"
      "K8sDrain env ctx args s = (textOKResult (Marshalled (summary args (gracePtrOf args) results)), s3)"
proof (cases "node_name args = []")
  case True
  then show thesis by (intro NoName) (simp_all add: K8sDrain_def)
next
  case name: False
  show thesis
  proof (cases "kubeClient env")
    case False
    with name show thesis
      by (intro NoClient) (simp_all add: K8sDrain_def Let_def getClient_def plainError_def)
  next
    case client: True
    obtain x s1 where c: "call ctx (PatchNode (node_name args) cordonPatch)
           (patchNode env (now s) (node_name args) cordonPatch) s = (x, s1)"
      by (cases "call ctx (PatchNode (node_name args) cordonPatch)
           (patchNode env (now s) (node_name args) cordonPatch) s") blast
    show thesis
    proof (cases x)
      case (Some err)
      with c have c': "call ctx (PatchNode (node_name args) cordonPatch)
           (patchNode env (now s) (node_name args) cordonPatch) s = (Some err, s1)" by simp
      show thesis by (rule CordonFails [OF name client c' K8sDrain_cordon_fails [OF name client c']])
    next
      case None
      with c have c': "call ctx (PatchNode (node_name args) cordonPatch)
           (patchNode env (now s) (node_name args) cordonPatch) s = (None, s1)" by simp
      obtain y s2 where l: "callList ctx (ListPods (selector args)) (listPods env (now s1) (selector args)) s1 = (y, s2)"
        by (cases "callList ctx (ListPods (selector args)) (listPods env (now s1) (selector args)) s1") blast
      show thesis
      proof (cases y)
        case (Inl err)
        with l have l': "callList ctx (ListPods (selector args)) (listPods env (now s1) (selector args)) s1 = (Inl err, s2)"
          by simp
        show thesis by (rule ListFails [OF name client c' l' K8sDrain_list_fails [OF name client c' l']])
      next
        case (Inr pods)
        with l have l': "callList ctx (ListPods (selector args)) (listPods env (now s1) (selector args)) s1 = (Inr pods, s2)"
          by simp
        obtain results s3 where d: "drainLoop env (WithTimeout ctx (now s2) (wrap64 (timeout_seconds args * Second))) args
             (gracePtrOf args) pods [] s2 = (results, s3)"
          by (cases "drainLoop env (WithTimeout ctx (now s2) (wrap64 (timeout_seconds args * Second))) args
             (gracePtrOf args) pods [] s2") blast
        have "K8sDrain env ctx args s = (textOKResult (Marshalled (summary args (gracePtrOf args) results)), s3)"
          using K8sDrain_listed [OF name client c' l'] d by simp
        then show thesis by (rule Listed [OF name client c' l' d])
      qed
    qed
  qed
qed


lemma IsError_text [simp]: "IsError (textErrorResult c)" "\<not> IsError (textOKResult c)"
  by (simp_all add: textErrorResult_def textOKResult_def)

lemma count_filtered_keys:
  "distinct (map f xs) \<Longrightarrow> p \<in> set xs \<Longrightarrow>
     count_list (map f (filter P xs)) (f p) = (if P p then 1 else 0)"
proof (induction xs)
  case Nil
  then show ?case by simp
next
  case (Cons x xs)
  show ?case
  proof (cases "p = x")
    case True
    from Cons.prems have "f x \<notin> f ` set xs" by simp
    then have "f x \<notin> set (map f (filter P xs))" by auto
    then have "count_list (map f (filter P xs)) (f x) = 0" by (simp add: count_list_0_iff)
    with True show ?thesis by simp
  next
    case False
    with Cons.prems have p: "p \<in> set xs" and d: "distinct (map f xs)" by auto
    from Cons.prems p have "f x \<noteq> f p" by auto
    with Cons.IH [OF d p] show ?thesis by simp
  qed
qed


section \<open>The actions of the report\<close>

text \<open>
  C2, as the code has it. The action of every entry of a report is one of the seven
  texts the loop writes: \<^verbatim>\<open>skipped (mirror/static pod)\<close>, \<^verbatim>\<open>skipped (daemonset)\<close>,
  \<^verbatim>\<open>skipped (local data; set delete_local_data=true or force=true)\<close>, \<^verbatim>\<open>evicted\<close>,
  \<^verbatim>\<open>force_deleted\<close>, \<^verbatim>\<open>evict_failed\<close> and \<^verbatim>\<open>evict_failed_delete_failed\<close>.
\<close>

theorem entry_actions_are_the_loops:
  "\<forall>e \<in> set (reportEntries (fst (K8sDrain env ctx args s))).
     entryAction e \<in> {''skipped (mirror/static pod)'', ''skipped (daemonset)'',
       ''skipped (local data; set delete_local_data=true or force=true)'',
       ''evicted'', ''force_deleted'', ''evict_failed'', ''evict_failed_delete_failed''}"
proof (cases rule: K8sDrain_cases [of args env ctx s])
  case (Listed pods s1 s2 results s3)
  from drainLoop_results [OF Listed(5)] have "\<forall>r \<in> set results. Action r \<in> set actions" by auto
  with Listed(6) show ?thesis
    by (auto simp: reportEntries_summary entryAction_marshal actions_def)
qed (simp_all add: reportEntries_error)

text \<open>
  Scenario A of the specification: a DaemonSet pod, a mirror pod and an ordinary pod,
  with DaemonSet pods ignored.
\<close>

theorem entry_actions_are_the_loops_witness:
  "map entryAction (reportEntries (fst (K8sDrain (calmCluster [daemonPod, mirrorPod, webPod]) None
       (plainArgs\<lparr>ignore_daemonsets := True\<rparr>) start)))
     = [''skipped (daemonset)'', ''skipped (mirror/static pod)'', ''evicted'']"
  using entry_actions_are_the_loops [of "calmCluster [daemonPod, mirrorPod, webPod]" None
      "plainArgs\<lparr>ignore_daemonsets := True\<rparr>" start]
  by (simp add: run_defs)


text \<open>
  C2 as it was stated fails on a mirror pod: the action of its entry is none of the
  seven texts of the claim.
\<close>

theorem mirror_skip_text_counterexample:
  "map entryAction (reportEntries (fst (K8sDrain (calmCluster [mirrorPod]) None plainArgs start)))
     = [''skipped (mirror/static pod)'']
   \<and> ''skipped (mirror/static pod)'' \<notin> {''skipped_mirror'', ''skipped_daemonset'',
        ''skipped_local_data'', ''evicted'', ''force_deleted'', ''evict_failed'',
        ''evict_and_delete_failed''}"
  by (simp add: run_defs)

section \<open>The pods of the report\<close>

text \<open>
  C3, as the code has it. When the cordon and the listing succeed, the drain returns a
  report whose entries are, in the order of the listing, the listed pods that are not
  in a terminal phase (Succeeded or Failed), whatever the cluster answers during the
  drain; a listed pod in a terminal phase has no entry. So when the listing names no
  pod twice, a listed pod has exactly one entry if it is not in a terminal phase and
  none if it is.
\<close>

theorem live_pods_reported_once:
  assumes name: "node_name args \<noteq> []" and client: "kubeClient env"
    and cordon: "call ctx (PatchNode (node_name args) cordonPatch)
           (patchNode env (now s) (node_name args) cordonPatch) s = (None, s1)"
    and listed: "callList ctx (ListPods (selector args)) (listPods env (now s1) (selector args)) s1
           = (Inr pods, s2)"
    and entries: "entries = reportEntries (fst (K8sDrain env ctx args s))"
  shows "\<not> IsError (fst (K8sDrain env ctx args s))
       \<and> map entryPod entries = map podKey (filter (\<lambda>p. \<not> isCompletedPod p) pods)
       \<and> (distinct (map podKey pods) \<longrightarrow>
            (\<forall>p \<in> set pods. count_list (map entryPod entries) (podKey p)
                               = (if isCompletedPod p then 0 else 1)))"
proof -
  obtain results s3 where d: "drainLoop env (WithTimeout ctx (now s2) (wrap64 (timeout_seconds args * Second)))
        args (gracePtrOf args) pods [] s2 = (results, s3)"
    by (cases "drainLoop env (WithTimeout ctx (now s2) (wrap64 (timeout_seconds args * Second)))
        args (gracePtrOf args) pods [] s2") blast
  with K8sDrain_listed [OF name client cordon listed]
  have run: "K8sDrain env ctx args s = (textOKResult (Marshalled (summary args (gracePtrOf args) results)), s3)"
    by simp
  from drainLoop_results [OF d]
  have keys: "map resultKey results = map podKey (filter (\<lambda>p. \<not> isCompletedPod p) pods)"
    by auto
  have ents: "map entryPod entries = map podKey (filter (\<lambda>p. \<not> isCompletedPod p) pods)"
    using keys by (simp add: entries run reportEntries_summary entryPod_marshal o_def)
  have "\<forall>p \<in> set pods. count_list (map entryPod entries) (podKey p) = (if isCompletedPod p then 0 else 1)"
    if dist: "distinct (map podKey pods)"
  proof
    fix p assume "p \<in> set pods"
    from count_filtered_keys [OF dist this, of "\<lambda>p. \<not> isCompletedPod p"]
    show "count_list (map entryPod entries) (podKey p) = (if isCompletedPod p then 0 else 1)"
      by (simp add: ents)
  qed
  with run ents show ?thesis by simp
qed


text \<open>A listing of a DaemonSet pod, a finished pod and an ordinary pod.\<close>

theorem live_pods_reported_once_witness:
  "map entryPod (reportEntries (fst (K8sDrain (calmCluster [daemonPod, donePod, webPod]) None
       plainArgs start)))
     = [(''kube-system'', ''proxy''), (''default'', ''web'')]
   \<and> map podKey (filter (\<lambda>p. \<not> isCompletedPod p) [daemonPod, donePod, webPod])
     = [(''kube-system'', ''proxy''), (''default'', ''web'')]
   \<and> \<not> IsError (fst (K8sDrain (calmCluster [daemonPod, donePod, webPod]) None plainArgs start))"
proof -
  let ?env = "calmCluster [daemonPod, donePod, webPod]"
  have name: "node_name plainArgs \<noteq> []" and client: "kubeClient ?env"
    by (simp_all add: plainArgs_def calmCluster_def)
  have cordon: "call None (PatchNode (node_name plainArgs) cordonPatch)
      (patchNode ?env (now start) (node_name plainArgs) cordonPatch) start
      = (None, \<lparr>now = 1, trace = [Request 0 (PatchNode ''n1'' cordonPatch)]\<rparr>)"
    by (simp add: call_def calmCluster_def start_def plainArgs_def)
  have listed: "callList None (ListPods (selector plainArgs))
      (listPods ?env (now \<lparr>now = 1, trace = [Request 0 (PatchNode ''n1'' cordonPatch)]\<rparr>) (selector plainArgs))
      \<lparr>now = 1, trace = [Request 0 (PatchNode ''n1'' cordonPatch)]\<rparr>
      = (Inr [daemonPod, donePod, webPod],
         \<lparr>now = 2, trace = [Request 0 (PatchNode ''n1'' cordonPatch), Request 1 (ListPods (selector plainArgs))]\<rparr>)"
    by (simp add: callList_def calmCluster_def)
  have keys: "map podKey (filter (\<lambda>p. \<not> isCompletedPod p) [daemonPod, donePod, webPod])
     = [(''kube-system'', ''proxy''), (''default'', ''web'')]"
    by (simp add: podKey_def isCompletedPod_def daemonPod_def donePod_def webPod_def)
  from live_pods_reported_once [OF name client cordon listed refl] keys
  show ?thesis by simp
qed


text \<open>
  C3 as it was stated fails on a pod that has finished: it is listed, the drain
  returns a report, and the report has no entry for it.
\<close>

theorem finished_pod_unreported_counterexample:
  "fst (listPods (calmCluster [donePod]) 1 (selector plainArgs)) = Inr [donePod]
   \<and> \<not> IsError (fst (K8sDrain (calmCluster [donePod]) None plainArgs start))
   \<and> reportEntries (fst (K8sDrain (calmCluster [donePod]) None plainArgs start)) = []
   \<and> count_list (map entryPod (reportEntries (fst (K8sDrain (calmCluster [donePod]) None plainArgs start))))
        (podKey donePod) = 0"
  by (simp add: run_defs)

section \<open>What aborts a drain\<close>





section \<open>The members of the report\<close>

text \<open>
  C8. Every result of a drain that is not an error result is the JSON object with
  exactly the members \<^verbatim>\<open>node\<close>, \<^verbatim>\<open>status\<close>, \<^verbatim>\<open>ignore_daemonsets\<close>,
  \<^verbatim>\<open>delete_local_data\<close>, \<^verbatim>\<open>force\<close>, \<^verbatim>\<open>grace_period\<close>, \<^verbatim>\<open>timeout_seconds\<close>,
  \<^verbatim>\<open>retry_backoff_ms\<close>, \<^verbatim>\<open>max_backoff_ms\<close> and \<^verbatim>\<open>results\<close>, and every entry under
  \<^verbatim>\<open>results\<close> is an object with the members \<^verbatim>\<open>namespace\<close>, \<^verbatim>\<open>name\<close>, \<^verbatim>\<open>action\<close>
  and, when there is an error text, \<^verbatim>\<open>error\<close>.
\<close>

theorem report_member_names:
  assumes ok: "\<not> IsError (fst (K8sDrain env ctx args s))"
  shows "\<exists>fs. Content (fst (K8sDrain env ctx args s)) = [Marshalled (JObject fs)]
          \<and> map fst fs = [''node'', ''status'', ''ignore_daemonsets'', ''delete_local_data'',
                ''force'', ''grace_period'', ''timeout_seconds'', ''retry_backoff_ms'',
                ''max_backoff_ms'', ''results'']
          \<and> (\<forall>e \<in> set (reportEntries (fst (K8sDrain env ctx args s))).
                memberNames e = [''namespace'', ''name'', ''action'']
                \<or> memberNames e = [''namespace'', ''name'', ''action'', ''error''])"
proof (cases rule: K8sDrain_cases [of args env ctx s])
  case (Listed pods s1 s2 results s3)
  have "memberNames (marshalPodResult r) = [''namespace'', ''name'', ''action'']
      \<or> memberNames (marshalPodResult r) = [''namespace'', ''name'', ''action'', ''error'']" for r
    by (simp add: marshalPodResult_def)
  then have ents: "\<forall>e \<in> set (reportEntries (fst (K8sDrain env ctx args s))).
                memberNames e = [''namespace'', ''name'', ''action'']
                \<or> memberNames e = [''namespace'', ''name'', ''action'', ''error'']"
    by (auto simp: Listed(6) reportEntries_summary)
  have "\<exists>fs. Content (fst (K8sDrain env ctx args s)) = [Marshalled (JObject fs)]
          \<and> map fst fs = [''node'', ''status'', ''ignore_daemonsets'', ''delete_local_data'',
                ''force'', ''grace_period'', ''timeout_seconds'', ''retry_backoff_ms'',
                ''max_backoff_ms'', ''results'']"
    by (simp add: Listed(6) textOKResult_def summary_def)
  then obtain fs where "Content (fst (K8sDrain env ctx args s)) = [Marshalled (JObject fs)]"
      "map fst fs = [''node'', ''status'', ''ignore_daemonsets'', ''delete_local_data'',
                ''force'', ''grace_period'', ''timeout_seconds'', ''retry_backoff_ms'',
                ''max_backoff_ms'', ''results'']"
    by (elim exE conjE)
  with ents show ?thesis by (intro exI [of _ fs] conjI)
qed (use ok in simp_all)


text \<open>An entry with an error text, an entry without, and the members of a report.\<close>

theorem report_member_names_witness:
  "map memberNames (reportEntries (fst (K8sDrain (refusingCluster [webPod]) None plainArgs start)))
     = [[''namespace'', ''name'', ''action'', ''error'']]
   \<and> map memberNames (reportEntries (fst (K8sDrain (calmCluster [webPod]) None plainArgs start)))
     = [[''namespace'', ''name'', ''action'']]
   \<and> map fst (reportOf (fst (K8sDrain (calmCluster [webPod]) None plainArgs start)))
     = [''node'', ''status'', ''ignore_daemonsets'', ''delete_local_data'',
        ''force'', ''grace_period'', ''timeout_seconds'', ''retry_backoff_ms'',
        ''max_backoff_ms'', ''results'']"
proof -
  have ok: "\<not> IsError (fst (K8sDrain (calmCluster [webPod]) None plainArgs start))"
    by (simp add: run_defs)
  have a: "map memberNames (reportEntries (fst (K8sDrain (refusingCluster [webPod]) None plainArgs start)))
     = [[''namespace'', ''name'', ''action'', ''error'']]"
    by (simp add: refusingCluster_def run_defs)
  have b: "map memberNames (reportEntries (fst (K8sDrain (calmCluster [webPod]) None plainArgs start)))
     = [[''namespace'', ''name'', ''action'']]"
    by (simp add: run_defs)
  from report_member_names [OF ok] have "map fst (reportOf (fst (K8sDrain (calmCluster [webPod]) None plainArgs start)))
     = [''node'', ''status'', ''ignore_daemonsets'', ''delete_local_data'',
        ''force'', ''grace_period'', ''timeout_seconds'', ''retry_backoff_ms'',
        ''max_backoff_ms'', ''results'']"
    by (auto simp: reportOf_def)
  with a b show ?thesis by blast
qed

section \<open>A doubling that wraps\<close>


end
